theory Spec2Isabelle
  imports Complex_Main
begin

text \<open>
  A shallow embedding of the solver for first-order differential equations
  \<^verbatim>\<open>dy/dx = f(x, y)\<close>: the expression nodes, simplifier, evaluator, tokenizer and parser of
  \<^verbatim>\<open>parser.js\<close>, the rule-based integrator of \<^verbatim>\<open>integrator.js\<close>, the classifier and the
  solution builders of \<^verbatim>\<open>solver.js\<close>, and the Runge-Kutta sampler of the chart module.
  An exception of the source is a value \<open>Inl e\<close> of a sum type, \<^verbatim>\<open>null\<close> is \<open>None\<close>.
\<close>

section \<open>Numbers\<close>

text \<open>
  A JavaScript number is a float64.  A finite number is modelled by its exact real value;
  \<open>Fin 0\<close> is the zero with positive sign, \<open>NZero\<close> the zero with negative sign.  The
  other values are the two infinities and NaN.  Rounding and overflow are not modelled: an
  operation on finite numbers returns the exact real result, so a product or a quotient of
  numbers that are not zero is never zero, and a sum is zero only by exact cancellation.
\<close>

datatype jsnum = Fin real | NZero | PInf | NInf | NaN

fun isFinite :: "jsnum \<Rightarrow> bool" where
  "isFinite (Fin r) = True"
| "isFinite NZero = True"
| "isFinite _ = False"

text \<open>The real value of a finite number, and the sign bit of a number.\<close>

fun realOf :: "jsnum \<Rightarrow> real" where
  "realOf (Fin r) = r"
| "realOf _ = 0"

fun signBit :: "jsnum \<Rightarrow> bool" where
  "signBit (Fin r) = (r < 0)"
| "signBit NZero = True"
| "signBit NInf = True"
| "signBit _ = False"

definition isZero :: "jsnum \<Rightarrow> bool" where
  "isZero a = (a = Fin 0 \<or> a = NZero)"

text \<open>The zero and the infinity with a given sign bit.\<close>

definition signedZero :: "bool \<Rightarrow> jsnum" where
  "signedZero negative = (if negative then NZero else Fin 0)"

definition signedInf :: "bool \<Rightarrow> jsnum" where
  "signedInf negative = (if negative then NInf else PInf)"

text \<open>\<^verbatim>\<open>Number.isInteger\<close>.\<close>

fun isInteger :: "jsnum \<Rightarrow> bool" where
  "isInteger (Fin r) = (of_int \<lfloor>r\<rfloor> = r)"
| "isInteger NZero = True"
| "isInteger _ = False"

text \<open>Unary minus flips the sign bit.\<close>

fun js_neg :: "jsnum \<Rightarrow> jsnum" where
  "js_neg (Fin r) = (if r = 0 then NZero else Fin (- r))"
| "js_neg NZero = Fin 0"
| "js_neg PInf = NInf"
| "js_neg NInf = PInf"
| "js_neg NaN = NaN"

text \<open>
  Addition.  A sum of two zeros is \<open>-0\<close> only when both are \<open>-0\<close>; a sum of finite numbers
  that cancel is \<open>+0\<close>.
\<close>

fun js_add :: "jsnum \<Rightarrow> jsnum \<Rightarrow> jsnum" where
  "js_add NaN b = NaN"
| "js_add a NaN = NaN"
| "js_add NZero NZero = NZero"
| "js_add NZero b = b"
| "js_add a NZero = a"
| "js_add (Fin a) (Fin b) = Fin (a + b)"
| "js_add (Fin a) b = b"
| "js_add a (Fin b) = a"
| "js_add PInf PInf = PInf"
| "js_add NInf NInf = NInf"
| "js_add PInf NInf = NaN"
| "js_add NInf PInf = NaN"

definition js_sub :: "jsnum \<Rightarrow> jsnum \<Rightarrow> jsnum" where
  "js_sub a b = js_add a (js_neg b)"

text \<open>
  Multiplication and division.  The sign bit of the result is the exclusive or of the
  sign bits of the operands, also for a zero and for an infinity.
\<close>

definition js_mul :: "jsnum \<Rightarrow> jsnum \<Rightarrow> jsnum" where
  "js_mul a b =
     (if a = NaN \<or> b = NaN then NaN
      else if isFinite a \<and> isFinite b then
        (if realOf a * realOf b = 0 then signedZero (signBit a \<noteq> signBit b)
         else Fin (realOf a * realOf b))
      else if isZero a \<or> isZero b then NaN
      else signedInf (signBit a \<noteq> signBit b))"

definition js_div :: "jsnum \<Rightarrow> jsnum \<Rightarrow> jsnum" where
  "js_div a b =
     (if a = NaN \<or> b = NaN then NaN
      else if \<not> isFinite a then
        (if \<not> isFinite b then NaN else signedInf (signBit a \<noteq> signBit b))
      else if \<not> isFinite b then signedZero (signBit a \<noteq> signBit b)
      else if isZero b then
        (if isZero a then NaN else signedInf (signBit a \<noteq> signBit b))
      else if isZero a then signedZero (signBit a \<noteq> signBit b)
      else Fin (realOf a / realOf b))"

text \<open>
  The comparisons \<^verbatim>\<open><\<close> and \<^verbatim>\<open>>\<close>, false when an operand is NaN; the two zeros compare
  equal.
\<close>

fun js_lt :: "jsnum \<Rightarrow> jsnum \<Rightarrow> bool" where
  "js_lt NaN b = False"
| "js_lt a NaN = False"
| "js_lt PInf b = False"
| "js_lt a NInf = False"
| "js_lt NInf b = True"
| "js_lt a PInf = True"
| "js_lt a b = (realOf a < realOf b)"

definition js_gt :: "jsnum \<Rightarrow> jsnum \<Rightarrow> bool" where
  "js_gt a b = js_lt b a"

text \<open>
  Strict inequality \<^verbatim>\<open>!==\<close> of two numbers: NaN differs from everything, the two zeros
  do not differ.
\<close>

definition js_neq :: "jsnum \<Rightarrow> jsnum \<Rightarrow> bool" where
  "js_neq a b = (a = NaN \<or> b = NaN \<or> (a \<noteq> b \<and> \<not> (isZero a \<and> isZero b)))"

fun Math_abs :: "jsnum \<Rightarrow> jsnum" where
  "Math_abs (Fin r) = Fin \<bar>r\<bar>"
| "Math_abs NZero = Fin 0"
| "Math_abs NaN = NaN"
| "Math_abs _ = PInf"

definition isOddInteger :: "real \<Rightarrow> bool" where
  "isOddInteger e = (of_int \<lfloor>e\<rfloor> = e \<and> odd \<lfloor>e\<rfloor>)"

text \<open>
  \<^verbatim>\<open>Math.pow\<close>, by the cases of ECMAScript's \<open>Number::exponentiate\<close>: a zero exponent gives
  1 for every base; a zero or infinite base gives a zero or an infinity, negative only for
  a negative base and an odd integer exponent; a negative base with a non-integer exponent
  gives NaN.
\<close>

fun Math_pow :: "jsnum \<Rightarrow> jsnum \<Rightarrow> jsnum" where
  "Math_pow b NaN = NaN"
| "Math_pow b NZero = Fin 1"
| "Math_pow b (Fin e) =
     (if e = 0 then Fin 1
      else case b of
        NaN \<Rightarrow> NaN
      | PInf \<Rightarrow> (if 0 < e then PInf else Fin 0)
      | NInf \<Rightarrow> (if 0 < e then (if isOddInteger e then NInf else PInf)
                 else (if isOddInteger e then NZero else Fin 0))
      | NZero \<Rightarrow> (if 0 < e then (if isOddInteger e then NZero else Fin 0)
                  else (if isOddInteger e then NInf else PInf))
      | Fin x \<Rightarrow>
          (if x = 0 then (if 0 < e then Fin 0 else PInf)
           else if of_int \<lfloor>e\<rfloor> = e then
             (if 0 < e then Fin (x ^ nat \<lfloor>e\<rfloor>) else Fin (1 / x ^ nat \<lfloor>- e\<rfloor>))
           else if x < 0 then NaN
           else Fin (x powr e)))"
| "Math_pow b PInf =
     (case b of
        NaN \<Rightarrow> NaN
      | Fin x \<Rightarrow> (if 1 < \<bar>x\<bar> then PInf else if \<bar>x\<bar> = 1 then NaN else Fin 0)
      | NZero \<Rightarrow> Fin 0
      | _ \<Rightarrow> PInf)"
| "Math_pow b NInf =
     (case b of
        NaN \<Rightarrow> NaN
      | Fin x \<Rightarrow> (if 1 < \<bar>x\<bar> then Fin 0 else if \<bar>x\<bar> = 1 then NaN else PInf)
      | NZero \<Rightarrow> PInf
      | _ \<Rightarrow> Fin 0)"

text \<open>
  The functions of \<^verbatim>\<open>Math\<close>.  Sine, tangent and square root keep a negative zero.
\<close>

fun Math_sin :: "jsnum \<Rightarrow> jsnum" where
  "Math_sin (Fin r) = Fin (sin r)"
| "Math_sin NZero = NZero"
| "Math_sin _ = NaN"

fun Math_cos :: "jsnum \<Rightarrow> jsnum" where
  "Math_cos (Fin r) = Fin (cos r)"
| "Math_cos NZero = Fin 1"
| "Math_cos _ = NaN"

text \<open>No float64 is a pole of the tangent; at a real pole the model answers NaN.\<close>

fun Math_tan :: "jsnum \<Rightarrow> jsnum" where
  "Math_tan (Fin r) = (if cos r = 0 then NaN else Fin (tan r))"
| "Math_tan NZero = NZero"
| "Math_tan _ = NaN"

fun Math_exp :: "jsnum \<Rightarrow> jsnum" where
  "Math_exp (Fin r) = Fin (exp r)"
| "Math_exp NZero = Fin 1"
| "Math_exp PInf = PInf"
| "Math_exp NInf = Fin 0"
| "Math_exp NaN = NaN"

fun Math_log :: "jsnum \<Rightarrow> jsnum" where
  "Math_log (Fin r) = (if r < 0 then NaN else if r = 0 then NInf else Fin (ln r))"
| "Math_log NZero = NInf"
| "Math_log PInf = PInf"
| "Math_log _ = NaN"

fun Math_sqrt :: "jsnum \<Rightarrow> jsnum" where
  "Math_sqrt (Fin r) = (if r < 0 then NaN else Fin (sqrt r))"
| "Math_sqrt NZero = NZero"
| "Math_sqrt PInf = PInf"
| "Math_sqrt _ = NaN"

text \<open>The tolerance \<^verbatim>\<open>1e-9\<close> of the identity tests.\<close>

definition tol9 :: jsnum where
  "tol9 = Fin (1 / 10 ^ 9)"

section \<open>Expression nodes\<close>

text \<open>
  The five node variants of \<^verbatim>\<open>parser.js\<close>.  Operators and names are strings, as in the
  source, so a node may carry an operator or a name that the functions below reject.
\<close>

datatype node =
    Number jsnum
  | Variable string
  | Unary string node
  | Function string node
  | Binary string node node

datatype error =
    InvalidNumber
  | UnknownSymbol "nat list"
  | InvalidCharacter nat
  | UnmatchedParenthesis
  | UnknownTokenRPN
  | UnaryMissingArgument
  | BinaryMissingArguments
  | FunctionMissingArgument
  | UnknownTokenAST
  | InvalidStructure
  | EmptyExpression
  | UnknownOperatorEvalBinary
  | UndefinedVariable string
  | UnsupportedUnary
  | UnsupportedFunction string
  | UnknownOperatorEvaluate
  | MissingEquals
  | BadLeftSide
  | DirectNotIntegrable
  | SeparableNotIntegrable
  | LinearPNotIntegrable
  | TypeError

text \<open>Sequencing of a computation that may throw.\<close>

definition bindE :: "error + 'a \<Rightarrow> ('a \<Rightarrow> error + 'b) \<Rightarrow> error + 'b" where
  "bindE m f = (case m of Inl e \<Rightarrow> Inl e | Inr v \<Rightarrow> f v)"

fun isNumberNode :: "node \<Rightarrow> bool" where
  "isNumberNode (Number v) = True"
| "isNumberNode _ = False"

fun isZeroNode :: "node \<Rightarrow> bool" where
  "isZeroNode (Number v) = js_lt (Math_abs v) tol9"
| "isZeroNode _ = False"

fun isOneNode :: "node \<Rightarrow> bool" where
  "isOneNode (Number v) = js_lt (Math_abs (js_sub v (Fin 1))) tol9"
| "isOneNode _ = False"

definition evalBinary :: "string \<Rightarrow> jsnum \<Rightarrow> jsnum \<Rightarrow> error + jsnum" where
  "evalBinary op left right =
     (if op = ''+'' then Inr (js_add left right)
      else if op = ''-'' then Inr (js_sub left right)
      else if op = ''*'' then Inr (js_mul left right)
      else if op = ''/'' then Inr (js_div left right)
      else if op = ''^'' then Inr (Math_pow left right)
      else Inl UnknownOperatorEvalBinary)"

text \<open>
  The \<^verbatim>\<open>binary\<close> case of \<^verbatim>\<open>simplifyNode\<close>, after both children were simplified.  The
  test for two numbers comes first, so the second such test in the source, under
  \<^verbatim>\<open>^\<close>, is never reached.
\<close>

fun simplifyBinary :: "string \<Rightarrow> node \<Rightarrow> node \<Rightarrow> error + node" where
  "simplifyBinary op (Number a) (Number b) =
     (case evalBinary op a b of Inl e \<Rightarrow> Inl e | Inr v \<Rightarrow> Inr (Number v))"
| "simplifyBinary op left right =
     (if op = ''+'' \<and> isZeroNode left then Inr right
      else if op = ''+'' \<and> isZeroNode right then Inr left
      else if op = ''-'' \<and> isZeroNode right then Inr left
      else if op = ''*'' \<and> (isZeroNode left \<or> isZeroNode right) then Inr (Number (Fin 0))
      else if op = ''*'' \<and> isOneNode left then Inr right
      else if op = ''*'' \<and> isOneNode right then Inr left
      else if op = ''/'' \<and> isZeroNode left then Inr (Number (Fin 0))
      else if op = ''/'' \<and> isOneNode right then Inr left
      else if op = ''^'' \<and> isZeroNode right then Inr (Number (Fin 1))
      else if op = ''^'' \<and> isOneNode right then Inr left
      else Inr (Binary op left right))"

fun simplifyNode :: "node \<Rightarrow> error + node" where
  "simplifyNode (Number v) = Inr (Number v)"
| "simplifyNode (Variable name) = Inr (Variable name)"
| "simplifyNode (Unary op argument) =
     (case simplifyNode argument of
        Inl e \<Rightarrow> Inl e
      | Inr arg \<Rightarrow>
          (if op = ''u-'' then
             (case arg of Number v \<Rightarrow> Inr (Number (js_neg v)) | _ \<Rightarrow> Inr (Unary ''u-'' arg))
           else Inr (Unary op arg)))"
| "simplifyNode (Function name argument) =
     (case simplifyNode argument of
        Inl e \<Rightarrow> Inl e
      | Inr arg \<Rightarrow> Inr (Function name arg))"
| "simplifyNode (Binary op l r) =
     (case simplifyNode l of
        Inl e \<Rightarrow> Inl e
      | Inr left \<Rightarrow>
          (case simplifyNode r of
             Inl e \<Rightarrow> Inl e
           | Inr right \<Rightarrow> simplifyBinary op left right))"

fun cloneNode :: "node \<Rightarrow> node" where
  "cloneNode (Number v) = Number v"
| "cloneNode (Variable name) = Variable name"
| "cloneNode (Unary op argument) = Unary op (cloneNode argument)"
| "cloneNode (Function name argument) = Function name (cloneNode argument)"
| "cloneNode (Binary op left right) = Binary op (cloneNode left) (cloneNode right)"

fun dependsOn :: "node \<Rightarrow> string \<Rightarrow> bool" where
  "dependsOn (Number v) variable = False"
| "dependsOn (Variable name) variable = (name = variable)"
| "dependsOn (Unary op argument) variable = dependsOn argument variable"
| "dependsOn (Function name argument) variable = dependsOn argument variable"
| "dependsOn (Binary op left right) variable =
     (dependsOn left variable \<or> dependsOn right variable)"

definition isConstantWithRespectTo :: "node \<Rightarrow> string \<Rightarrow> bool" where
  "isConstantWithRespectTo n variable = (\<not> dependsOn n variable)"

fun isVariableNode :: "node \<Rightarrow> string \<Rightarrow> bool" where
  "isVariableNode (Variable name) variable = (name = variable)"
| "isVariableNode _ variable = False"

definition makeAdd :: "node \<Rightarrow> node \<Rightarrow> error + node" where
  "makeAdd a b = simplifyNode (Binary ''+'' a b)"

definition makeSub :: "node \<Rightarrow> node \<Rightarrow> error + node" where
  "makeSub a b = simplifyNode (Binary ''-'' a b)"

definition makeMul :: "node \<Rightarrow> node \<Rightarrow> error + node" where
  "makeMul a b = simplifyNode (Binary ''*'' a b)"

definition makeDiv :: "node \<Rightarrow> node \<Rightarrow> error + node" where
  "makeDiv a b = simplifyNode (Binary ''/'' a b)"

definition makePow :: "node \<Rightarrow> node \<Rightarrow> error + node" where
  "makePow a b = simplifyNode (Binary ''^'' a b)"

definition makeNeg :: "node \<Rightarrow> error + node" where
  "makeNeg a = simplifyNode (Unary ''u-'' a)"

section \<open>Numeric evaluation\<close>

text \<open>
  A scope binds names to numbers.  The functions of \<^verbatim>\<open>evaluateNode\<close>, by name; an
  unknown name throws.
\<close>

definition applyFunction :: "string \<Rightarrow> jsnum \<Rightarrow> error + jsnum" where
  "applyFunction name arg =
     (if name = ''sin'' then Inr (Math_sin arg)
      else if name = ''cos'' then Inr (Math_cos arg)
      else if name = ''tan'' then Inr (Math_tan arg)
      else if name = ''cot'' then Inr (js_div (Fin 1) (Math_tan arg))
      else if name = ''sec'' then Inr (js_div (Fin 1) (Math_cos arg))
      else if name = ''csc'' then Inr (js_div (Fin 1) (Math_sin arg))
      else if name = ''exp'' then Inr (Math_exp arg)
      else if name = ''ln'' \<or> name = ''log'' then Inr (Math_log arg)
      else if name = ''sqrt'' then Inr (Math_sqrt arg)
      else if name = ''abs'' then Inr (Math_abs arg)
      else Inl (UnsupportedFunction name))"

definition applyOperator :: "string \<Rightarrow> jsnum \<Rightarrow> jsnum \<Rightarrow> error + jsnum" where
  "applyOperator op left right =
     (if op = ''+'' then Inr (js_add left right)
      else if op = ''-'' then Inr (js_sub left right)
      else if op = ''*'' then Inr (js_mul left right)
      else if op = ''/'' then Inr (js_div left right)
      else if op = ''^'' then Inr (Math_pow left right)
      else Inl UnknownOperatorEvaluate)"

fun evaluateNode :: "node \<Rightarrow> (string \<rightharpoonup> jsnum) \<Rightarrow> error + jsnum" where
  "evaluateNode (Number v) scope = Inr v"
| "evaluateNode (Variable name) scope =
     (case scope name of None \<Rightarrow> Inl (UndefinedVariable name) | Some v \<Rightarrow> Inr v)"
| "evaluateNode (Unary op argument) scope =
     (case evaluateNode argument scope of
        Inl e \<Rightarrow> Inl e
      | Inr v \<Rightarrow> (if op = ''u-'' then Inr (js_neg v) else Inl UnsupportedUnary))"
| "evaluateNode (Function name argument) scope =
     (case evaluateNode argument scope of
        Inl e \<Rightarrow> Inl e
      | Inr arg \<Rightarrow> applyFunction name arg)"
| "evaluateNode (Binary op l r) scope =
     (case evaluateNode l scope of
        Inl e \<Rightarrow> Inl e
      | Inr left \<Rightarrow>
          (case evaluateNode r scope of
             Inl e \<Rightarrow> Inl e
           | Inr right \<Rightarrow> applyOperator op left right))"

text \<open>
  \<^verbatim>\<open>createDerivativeEvaluator\<close> of \<^verbatim>\<open>solver.js\<close>: the scope binds \<open>x\<close> and \<open>y\<close>; an
  exception and a non-finite value both become NaN.
\<close>

definition createDerivativeEvaluator :: "node \<Rightarrow> jsnum \<Rightarrow> jsnum \<Rightarrow> jsnum" where
  "createDerivativeEvaluator rhsNode x y =
     (case evaluateNode rhsNode [''x'' \<mapsto> x, ''y'' \<mapsto> y] of
        Inl e \<Rightarrow> NaN
      | Inr v \<Rightarrow> (if \<not> isFinite v then NaN else v))"

section \<open>The integrator\<close>

text \<open>
  A function of \<^verbatim>\<open>integrator.js\<close> returns a node, returns \<^verbatim>\<open>null\<close> (\<open>Inr None\<close>) or
  throws (\<open>Inl\<close>).
\<close>

definition okE :: "error + 'a \<Rightarrow> error + 'a option" where
  "okE m = (case m of Inl e \<Rightarrow> Inl e | Inr v \<Rightarrow> Inr (Some v))"

definition extractNumericConstant :: "node \<Rightarrow> jsnum option" where
  "extractNumericConstant n =
     (if \<not> dependsOn n ''x'' \<and> \<not> dependsOn n ''y'' then
        (case n of Number v \<Rightarrow> Some v | _ \<Rightarrow> None)
      else None)"

text \<open>The pair \<open>(a, b)\<close> is the object \<^verbatim>\<open>{ a, b }\<close> of the source.\<close>

fun matchLinearRecursive :: "node \<Rightarrow> string \<Rightarrow> error + (jsnum \<times> node) option" where
  "matchLinearRecursive (Number v) variable = Inr (Some (Fin 0, Number v))"
| "matchLinearRecursive (Variable name) variable =
     (if name \<noteq> variable then Inr (Some (Fin 0, Variable name))
      else Inr (Some (Fin 1, Number (Fin 0))))"
| "matchLinearRecursive (Unary op argument) variable =
     (if \<not> dependsOn (Unary op argument) variable then Inr (Some (Fin 0, Unary op argument))
      else if op = ''u-'' then
        (case matchLinearRecursive argument variable of
           Inl e \<Rightarrow> Inl e
         | Inr None \<Rightarrow> Inr None
         | Inr (Some (a, b)) \<Rightarrow>
             (case makeNeg b of Inl e \<Rightarrow> Inl e | Inr nb \<Rightarrow> Inr (Some (js_neg a, nb))))
      else Inr None)"
| "matchLinearRecursive (Function name argument) variable =
     (if \<not> dependsOn (Function name argument) variable
      then Inr (Some (Fin 0, Function name argument))
      else Inr None)"
| "matchLinearRecursive (Binary op left right) variable =
     (if \<not> dependsOn (Binary op left right) variable
      then Inr (Some (Fin 0, Binary op left right))
      else if op = ''+'' then
        (case matchLinearRecursive left variable of
           Inl e \<Rightarrow> Inl e
         | Inr leftLinear \<Rightarrow>
             (case matchLinearRecursive right variable of
                Inl e \<Rightarrow> Inl e
              | Inr rightLinear \<Rightarrow>
                  (case (leftLinear, rightLinear) of
                     (Some (la, lb), Some (ra, rb)) \<Rightarrow>
                       (case makeAdd lb rb of
                          Inl e \<Rightarrow> Inl e
                        | Inr nb \<Rightarrow> Inr (Some (js_add la ra, nb)))
                   | _ \<Rightarrow> Inr None)))
      else if op = ''-'' then
        (case matchLinearRecursive left variable of
           Inl e \<Rightarrow> Inl e
         | Inr leftLinear \<Rightarrow>
             (case matchLinearRecursive right variable of
                Inl e \<Rightarrow> Inl e
              | Inr rightLinear \<Rightarrow>
                  (case (leftLinear, rightLinear) of
                     (Some (la, lb), Some (ra, rb)) \<Rightarrow>
                       (case makeSub lb rb of
                          Inl e \<Rightarrow> Inl e
                        | Inr nb \<Rightarrow> Inr (Some (js_sub la ra, nb)))
                   | _ \<Rightarrow> Inr None)))
      else if op = ''*'' then
        (if isConstantWithRespectTo left variable then
           (case extractNumericConstant left of
              None \<Rightarrow> Inr None
            | Some leftConst \<Rightarrow>
                (case matchLinearRecursive right variable of
                   Inl e \<Rightarrow> Inl e
                 | Inr None \<Rightarrow> Inr None
                 | Inr (Some (ra, rb)) \<Rightarrow>
                     (case makeMul (Number leftConst) rb of
                        Inl e \<Rightarrow> Inl e
                      | Inr nb \<Rightarrow> Inr (Some (js_mul ra leftConst, nb)))))
         else if isConstantWithRespectTo right variable then
           (case extractNumericConstant right of
              None \<Rightarrow> Inr None
            | Some rightConst \<Rightarrow>
                (case matchLinearRecursive left variable of
                   Inl e \<Rightarrow> Inl e
                 | Inr None \<Rightarrow> Inr None
                 | Inr (Some (la, lb)) \<Rightarrow>
                     (case makeMul (Number rightConst) lb of
                        Inl e \<Rightarrow> Inl e
                      | Inr nb \<Rightarrow> Inr (Some (js_mul la rightConst, nb)))))
         else Inr None)
      else if op = ''/'' then
        (if isConstantWithRespectTo right variable then
           (case extractNumericConstant right of
              None \<Rightarrow> Inr None
            | Some constValue \<Rightarrow>
                (if js_lt (Math_abs constValue) tol9 then Inr None
                 else
                   (case matchLinearRecursive left variable of
                      Inl e \<Rightarrow> Inl e
                    | Inr None \<Rightarrow> Inr None
                    | Inr (Some (la, lb)) \<Rightarrow>
                        (case makeDiv lb (Number constValue) of
                           Inl e \<Rightarrow> Inl e
                         | Inr nb \<Rightarrow> Inr (Some (js_div la constValue, nb))))))
         else Inr None)
      else Inr None)"

text \<open>The triple \<open>(a, b, node)\<close> is the object \<^verbatim>\<open>{ a, b, node }\<close> of the source.\<close>

definition matchLinear :: "node \<Rightarrow> string \<Rightarrow> error + (jsnum \<times> node \<times> node) option" where
  "matchLinear n variable =
     (case matchLinearRecursive n variable of
        Inl e \<Rightarrow> Inl e
      | Inr None \<Rightarrow> Inr None
      | Inr (Some (a, b)) \<Rightarrow>
          (if js_lt (Math_abs a) tol9 then
             (case simplifyNode b of
                Inl e \<Rightarrow> Inl e
              | Inr sb \<Rightarrow> Inr (Some (Fin 0, b, sb)))
           else
             bindE (makeMul (Number a) (Variable variable)) (\<lambda>av.
             bindE (makeAdd av b) (\<lambda>s.
             bindE (simplifyNode s) (\<lambda>linearNode.
             Inr (Some (a, b, linearNode)))))))"

text \<open>The antiderivative \<^verbatim>\<open>factor * ln(abs(inside))\<close> built by the quotient rule.\<close>

definition lnAbs :: "node \<Rightarrow> node" where
  "lnAbs inside = Function ''ln'' (Function ''abs'' inside)"

fun integrateInternal :: "node \<Rightarrow> string \<Rightarrow> error + node option" where
  "integrateInternal (Number v) variable = okE (makeMul (Number v) (Variable variable))"
| "integrateInternal (Variable name) variable =
     (if name \<noteq> variable then okE (makeMul (Variable name) (Variable variable))
      else
        bindE (makePow (Variable variable) (Number (Fin 2))) (\<lambda>p.
        okE (makeMul (Number (Fin (1 / 2))) p)))"
| "integrateInternal (Unary op argument) variable =
     (if \<not> dependsOn (Unary op argument) variable
      then okE (makeMul (Unary op argument) (Variable variable))
      else if op = ''u-'' then
        (case integrateInternal argument variable of
           Inl e \<Rightarrow> Inl e
         | Inr None \<Rightarrow> Inr None
         | Inr (Some integrated) \<Rightarrow> okE (makeNeg integrated))
      else Inr None)"
| "integrateInternal (Binary op left right) variable =
     (if \<not> dependsOn (Binary op left right) variable
      then okE (makeMul (Binary op left right) (Variable variable))
      else if op = ''+'' then
        (case integrateInternal left variable of
           Inl e \<Rightarrow> Inl e
         | Inr leftInt \<Rightarrow>
             (case integrateInternal right variable of
                Inl e \<Rightarrow> Inl e
              | Inr rightInt \<Rightarrow>
                  (case (leftInt, rightInt) of
                     (Some li, Some ri) \<Rightarrow> okE (makeAdd li ri)
                   | _ \<Rightarrow> Inr None)))
      else if op = ''-'' then
        (case integrateInternal left variable of
           Inl e \<Rightarrow> Inl e
         | Inr leftInt \<Rightarrow>
             (case integrateInternal right variable of
                Inl e \<Rightarrow> Inl e
              | Inr rightInt \<Rightarrow>
                  (case (leftInt, rightInt) of
                     (Some li, Some ri) \<Rightarrow> okE (makeSub li ri)
                   | _ \<Rightarrow> Inr None)))
      else if op = ''*'' then
        (if isConstantWithRespectTo left variable then
           (case integrateInternal right variable of
              Inl e \<Rightarrow> Inl e
            | Inr None \<Rightarrow> Inr None
            | Inr (Some rightInt) \<Rightarrow> okE (makeMul left rightInt))
         else if isConstantWithRespectTo right variable then
           (case integrateInternal left variable of
              Inl e \<Rightarrow> Inl e
            | Inr None \<Rightarrow> Inr None
            | Inr (Some leftInt) \<Rightarrow> okE (makeMul right leftInt))
         else Inr None)
      else if op = ''/'' then
        (if \<not> dependsOn right variable \<and> dependsOn left variable then
           (case integrateInternal left variable of
              Inl e \<Rightarrow> Inl e
            | Inr None \<Rightarrow> Inr None
            | Inr (Some integral) \<Rightarrow> okE (makeDiv integral right))
         else if \<not> dependsOn left variable \<and> dependsOn right variable then
           (case extractNumericConstant left of
              None \<Rightarrow> Inr None
            | Some numeratorValue \<Rightarrow>
                (case matchLinear right variable of
                   Inl e \<Rightarrow> Inl e
                 | Inr linearInfo \<Rightarrow>
                     (case linearInfo of
                        Some (a, b, inside) \<Rightarrow>
                          (if js_neq a (Fin 0) then
                             okE (makeMul (Number (js_div numeratorValue a)) (lnAbs inside))
                           else if isVariableNode right variable
                                   \<and> js_gt (Math_abs numeratorValue) (Fin 0) then
                             okE (makeMul (Number numeratorValue) (lnAbs (Variable variable)))
                           else Inr None)
                      | None \<Rightarrow>
                          (if isVariableNode right variable
                              \<and> js_gt (Math_abs numeratorValue) (Fin 0) then
                             okE (makeMul (Number numeratorValue) (lnAbs (Variable variable)))
                           else Inr None))))
         else Inr None)
      else if op = ''^'' then
        (case right of
           Number pw \<Rightarrow>
             (if isVariableNode left variable then
                (if js_lt (Math_abs (js_add pw (Fin 1))) tol9
                 then Inr (Some (lnAbs (Variable variable)))
                 else
                   bindE (makePow (Variable variable) (Number (js_add pw (Fin 1)))) (\<lambda>p.
                   okE (makeMul (Number (js_div (Fin 1) (js_add pw (Fin 1)))) p)))
              else Inr None)
         | _ \<Rightarrow> Inr None)
      else Inr None)"
| "integrateInternal (Function name argument) variable =
     (if \<not> dependsOn (Function name argument) variable
      then okE (makeMul (Function name argument) (Variable variable))
      else
        (case matchLinear argument variable of
           Inl e \<Rightarrow> Inl e
         | Inr linearInfo \<Rightarrow>
             (case linearInfo of
                Some (a, b, linearNode) \<Rightarrow>
                  (if name = ''exp'' \<and> js_neq a (Fin 0) then
                     okE (makeMul (Number (js_div (Fin 1) a))
                            (Function ''exp'' (cloneNode argument)))
                   else if name = ''sin'' \<and> js_neq a (Fin 0) then
                     okE (makeMul (Number (js_div (Fin (- 1)) a))
                            (Function ''cos'' (cloneNode argument)))
                   else if name = ''cos'' \<and> js_neq a (Fin 0) then
                     okE (makeMul (Number (js_div (Fin 1) a))
                            (Function ''sin'' (cloneNode argument)))
                   else if name = ''tan'' \<and> js_neq a (Fin 0) then
                     okE (makeMul (Number (js_div (Fin (- 1)) a))
                            (lnAbs (Function ''cos'' (cloneNode argument))))
                   else Inr None)
              | None \<Rightarrow> Inr None)))"

definition integrate :: "node \<Rightarrow> string \<Rightarrow> error + node option" where
  "integrate n variable =
     (case integrateInternal n variable of
        Inl e \<Rightarrow> Inl e
      | Inr None \<Rightarrow> Inr None
      | Inr (Some result) \<Rightarrow> okE (simplifyNode result))"

section \<open>Strings\<close>

text \<open>
  A JavaScript string is a sequence of UTF-16 code units, here natural numbers.  The
  names and operators stored in tokens and nodes are ASCII and are kept as HOL strings;
  \<open>str\<close> gives the code units of such a string.
\<close>

type_synonym jsstring = "nat list"

definition str :: "string \<Rightarrow> jsstring" where
  "str s = map of_char s"

text \<open>The ASCII string of code units that are all below 128.\<close>

definition asciiString :: "jsstring \<Rightarrow> string" where
  "asciiString s = map char_of s"

text \<open>White space as \<^verbatim>\<open>\s\<close> and \<^verbatim>\<open>trim\<close> see it: the white space and line terminator
  code points of ECMAScript.\<close>

definition isSpace :: "nat \<Rightarrow> bool" where
  "isSpace c = (c = 9 \<or> c = 10 \<or> c = 11 \<or> c = 12 \<or> c = 13 \<or> c = 32 \<or> c = 160
     \<or> c = 5760 \<or> (8192 \<le> c \<and> c \<le> 8202) \<or> c = 8232 \<or> c = 8233 \<or> c = 8239
     \<or> c = 8287 \<or> c = 12288 \<or> c = 65279)"

definition trim :: "jsstring \<Rightarrow> jsstring" where
  "trim s = rev (dropWhile isSpace (rev (dropWhile isSpace s)))"

text \<open>\<^verbatim>\<open>replace(/\s+/g, r)\<close>: every maximal run of white space becomes \<open>r\<close>.\<close>

fun replaceSpaceRuns :: "jsstring \<Rightarrow> bool \<Rightarrow> jsstring \<Rightarrow> jsstring" where
  "replaceSpaceRuns r inRun [] = []"
| "replaceSpaceRuns r inRun (c # cs) =
     (if isSpace c then (if inRun then [] else r) @ replaceSpaceRuns r True cs
      else c # replaceSpaceRuns r False cs)"

text \<open>\<^verbatim>\<open>replace\<close> of every occurrence of one code unit by another.\<close>

definition replaceUnit :: "nat \<Rightarrow> nat \<Rightarrow> jsstring \<Rightarrow> jsstring" where
  "replaceUnit a b s = map (\<lambda>c. if c = a then b else c) s"

text \<open>\<^verbatim>\<open>split\<close> at every occurrence of a code unit.\<close>

fun split :: "nat \<Rightarrow> jsstring \<Rightarrow> jsstring list" where
  "split sep [] = [[]]"
| "split sep (c # cs) =
     (if c = sep then [] # split sep cs
      else (case split sep cs of p # ps \<Rightarrow> (c # p) # ps | [] \<Rightarrow> [[c]]))"

text \<open>
  \<^verbatim>\<open>toLowerCase\<close> on the letters A to Z.  The other case mappings of Unicode are not
  modelled; none of them yields a character of \<^verbatim>\<open>dy/dx\<close>, the only text a lowered
  string with other characters is compared with.
\<close>

definition toLowerCase :: "jsstring \<Rightarrow> jsstring" where
  "toLowerCase s = map (\<lambda>c. if 65 \<le> c \<and> c \<le> 90 then c + 32 else c) s"

section \<open>The tokenizer\<close>

datatype token =
    TNumber jsnum
  | TVariable string
  | TFunction string
  | TOperator string
  | TComma
  | TLParen
  | TRParen

datatype prevType =
  PStart | PNumber | PFunction | PVariable | PComma | PLParen | PRParen | POperator

definition FUNCTIONS :: "string list" where
  "FUNCTIONS = [''sin'', ''cos'', ''tan'', ''cot'', ''sec'', ''csc'', ''exp'', ''ln'', ''log'',
     ''sqrt'', ''abs'']"

definition CONSTANTS :: "string \<rightharpoonup> jsnum" where
  "CONSTANTS = [''pi'' \<mapsto> Fin pi, ''e'' \<mapsto> Fin (exp 1)]"

datatype associativity = LeftAssoc | RightAssoc

record opInfo =
  precedence :: nat
  assoc :: associativity
  args :: nat

definition OP_INFO :: "string \<rightharpoonup> opInfo" where
  "OP_INFO = [
     ''+'' \<mapsto> \<lparr>precedence = 1, assoc = LeftAssoc, args = 2\<rparr>,
     ''-'' \<mapsto> \<lparr>precedence = 1, assoc = LeftAssoc, args = 2\<rparr>,
     ''*'' \<mapsto> \<lparr>precedence = 2, assoc = LeftAssoc, args = 2\<rparr>,
     ''/'' \<mapsto> \<lparr>precedence = 2, assoc = LeftAssoc, args = 2\<rparr>,
     ''^'' \<mapsto> \<lparr>precedence = 3, assoc = RightAssoc, args = 2\<rparr>,
     ''u-'' \<mapsto> \<lparr>precedence = 4, assoc = RightAssoc, args = 1\<rparr>]"

definition PREC_MAP :: "string \<rightharpoonup> nat" where
  "PREC_MAP = [''number'' \<mapsto> 5, ''variable'' \<mapsto> 5, ''function'' \<mapsto> 5, ''unary'' \<mapsto> 4,
     ''^'' \<mapsto> 3, ''*'' \<mapsto> 2, ''/'' \<mapsto> 2, ''+'' \<mapsto> 1, ''-'' \<mapsto> 1]"

definition isDigit :: "nat \<Rightarrow> bool" where
  "isDigit c = (48 \<le> c \<and> c \<le> 57)"

text \<open>The character classes \<^verbatim>\<open>[0-9.]\<close>, \<^verbatim>\<open>[a-zA-Z_]\<close> and \<^verbatim>\<open>[a-zA-Z0-9_]\<close>.\<close>

definition isNumberChar :: "nat \<Rightarrow> bool" where
  "isNumberChar c = (isDigit c \<or> c = 46)"

definition isIdentStart :: "nat \<Rightarrow> bool" where
  "isIdentStart c = ((65 \<le> c \<and> c \<le> 90) \<or> (97 \<le> c \<and> c \<le> 122) \<or> c = 95)"

definition isIdentChar :: "nat \<Rightarrow> bool" where
  "isIdentChar c = (isIdentStart c \<or> isDigit c)"

text \<open>\<^verbatim>\<open>OP_INFO[char]\<close> for a single code unit: the one-character keys of the table.\<close>

definition operatorOfChar :: "nat \<Rightarrow> string option" where
  "operatorOfChar c =
     (if c < 128 \<and> OP_INFO [char_of c] \<noteq> None then Some [char_of c] else None)"

definition digitsValue :: "jsstring \<Rightarrow> nat" where
  "digitsValue ds = foldl (\<lambda>acc d. 10 * acc + (d - 48)) 0 ds"

text \<open>
  \<^verbatim>\<open>parseFloat\<close> on the strings the tokenizer passes: digits with at most one dot.  The
  value is the exact decimal; a string without a digit gives NaN.
\<close>

definition parseFloat :: "jsstring \<Rightarrow> jsnum" where
  "parseFloat s =
     (let ip = takeWhile isDigit s;
          fp = takeWhile isDigit (drop 1 (dropWhile isDigit s))
      in if ip = [] \<and> fp = [] then NaN
         else Fin (real (digitsValue ip) + real (digitsValue fp) / 10 ^ length fp))"

function tokenizeFrom :: "prevType \<Rightarrow> jsstring \<Rightarrow> error + token list" where
  "tokenizeFrom prev [] = Inr []"
| "tokenizeFrom prev (c # cs) =
     (if c = 32 \<or> c = 9 \<or> c = 10 then tokenizeFrom prev cs
      else if isNumberChar c then
        (let numStr = c # takeWhile isNumberChar cs in
         if 2 < length (split 46 numStr) then Inl InvalidNumber
         else
           (case tokenizeFrom PNumber (dropWhile isNumberChar cs) of
              Inl e \<Rightarrow> Inl e
            | Inr ts \<Rightarrow> Inr (TNumber (parseFloat numStr) # ts)))
      else if isIdentStart c then
        (let ident = c # takeWhile isIdentChar cs;
             lower = asciiString (toLowerCase ident)
         in case CONSTANTS lower of
              Some v \<Rightarrow>
                (case tokenizeFrom PNumber (dropWhile isIdentChar cs) of
                   Inl e \<Rightarrow> Inl e
                 | Inr ts \<Rightarrow> Inr (TNumber v # ts))
            | None \<Rightarrow>
                (if lower \<in> set FUNCTIONS then
                   (case tokenizeFrom PFunction (dropWhile isIdentChar cs) of
                      Inl e \<Rightarrow> Inl e
                    | Inr ts \<Rightarrow> Inr (TFunction lower # ts))
                 else if lower = ''x'' \<or> lower = ''y'' then
                   (case tokenizeFrom PVariable (dropWhile isIdentChar cs) of
                      Inl e \<Rightarrow> Inl e
                    | Inr ts \<Rightarrow> Inr (TVariable lower # ts))
                 else Inl (UnknownSymbol ident)))
      else if c = 44 then
        (case tokenizeFrom PComma cs of Inl e \<Rightarrow> Inl e | Inr ts \<Rightarrow> Inr (TComma # ts))
      else if c = 40 then
        (case tokenizeFrom PLParen cs of Inl e \<Rightarrow> Inl e | Inr ts \<Rightarrow> Inr (TLParen # ts))
      else if c = 41 then
        (case tokenizeFrom PRParen cs of Inl e \<Rightarrow> Inl e | Inr ts \<Rightarrow> Inr (TRParen # ts))
      else
        (case operatorOfChar c of
           Some char \<Rightarrow>
             (let op = (if char = ''-'' \<and> (prev = PStart \<or> prev = POperator
                            \<or> prev = PLParen \<or> prev = PComma)
                        then ''u-'' else char)
              in case tokenizeFrom POperator cs of
                   Inl e \<Rightarrow> Inl e
                 | Inr ts \<Rightarrow> Inr (TOperator op # ts))
         | None \<Rightarrow> Inl (InvalidCharacter c)))"
  by pat_completeness auto
termination
  by (relation "measure (\<lambda>(prev, s). length s)")
     (auto simp: le_imp_less_Suc length_dropWhile_le)

definition tokenize :: "jsstring \<Rightarrow> error + token list" where
  "tokenize input = tokenizeFrom PStart input"

section \<open>The parser\<close>

text \<open>
  \<^verbatim>\<open>toRPN\<close> keeps an output queue and an operator stack; the head of a stack list is its
  top.  The three inner loops of the source are the functions \<open>popUntilLParen\<close> (comma),
  \<open>popOperators\<close> (operator) and \<open>popToLParen\<close> (right parenthesis).  Reading a field
  of a missing \<^verbatim>\<open>OP_INFO\<close> entry is the exception \<open>TypeError\<close>.
\<close>

fun popUntilLParen :: "token list \<Rightarrow> token list \<Rightarrow> token list \<times> token list" where
  "popUntilLParen [] output = ([], output)"
| "popUntilLParen (topTok # stack) output =
     (if topTok \<noteq> TLParen then popUntilLParen stack (output @ [topTok])
      else (topTok # stack, output))"

fun popOperators ::
  "string \<Rightarrow> token list \<Rightarrow> token list \<Rightarrow> error + token list \<times> token list" where
  "popOperators o1 [] output = Inr ([], output)"
| "popOperators o1 (topTok # stack) output =
     (case topTok of
        TFunction f \<Rightarrow> popOperators o1 stack (output @ [topTok])
      | TOperator o2 \<Rightarrow>
          (case (OP_INFO o1, OP_INFO o2) of
             (Some info1, Some info2) \<Rightarrow>
               (if (assoc info1 = LeftAssoc \<and> precedence info1 \<le> precedence info2)
                   \<or> (assoc info1 = RightAssoc \<and> precedence info1 < precedence info2)
                then popOperators o1 stack (output @ [topTok])
                else Inr (topTok # stack, output))
           | _ \<Rightarrow> Inl TypeError)
      | _ \<Rightarrow> Inr (topTok # stack, output))"

fun popToLParen :: "token list \<Rightarrow> token list \<Rightarrow> (token list \<times> token list) option" where
  "popToLParen [] output = None"
| "popToLParen (topTok # stack) output =
     (if topTok = TLParen then Some (stack, output)
      else popToLParen stack (output @ [topTok]))"

fun drainStack :: "token list \<Rightarrow> token list \<Rightarrow> error + token list" where
  "drainStack [] output = Inr output"
| "drainStack (topTok # stack) output =
     (if topTok = TLParen \<or> topTok = TRParen then Inl UnmatchedParenthesis
      else drainStack stack (output @ [topTok]))"

fun toRPNLoop :: "token list \<Rightarrow> token list \<Rightarrow> token list \<Rightarrow> error + token list" where
  "toRPNLoop [] output stack = drainStack stack output"
| "toRPNLoop (tk # tokens) output stack =
     (case tk of
        TNumber v \<Rightarrow> toRPNLoop tokens (output @ [tk]) stack
      | TVariable name \<Rightarrow> toRPNLoop tokens (output @ [tk]) stack
      | TFunction name \<Rightarrow> toRPNLoop tokens output (tk # stack)
      | TComma \<Rightarrow>
          (case popUntilLParen stack output of
             (stack', output') \<Rightarrow>
               (if stack' = [] then Inl UnmatchedParenthesis
                else toRPNLoop tokens output' stack'))
      | TOperator o1 \<Rightarrow>
          (case popOperators o1 stack output of
             Inl e \<Rightarrow> Inl e
           | Inr (stack', output') \<Rightarrow> toRPNLoop tokens output' (tk # stack'))
      | TLParen \<Rightarrow> toRPNLoop tokens output (tk # stack)
      | TRParen \<Rightarrow>
          (case popToLParen stack output of
             None \<Rightarrow> Inl UnmatchedParenthesis
           | Some (stack', output') \<Rightarrow>
               (case stack' of
                  TFunction f # stack'' \<Rightarrow> toRPNLoop tokens (output' @ [TFunction f]) stack''
                | _ \<Rightarrow> toRPNLoop tokens output' stack')))"

definition toRPN :: "token list \<Rightarrow> error + token list" where
  "toRPN tokens = toRPNLoop tokens [] []"

text \<open>The stack machine of \<^verbatim>\<open>buildAST\<close>; the head of the list is the top of the stack.\<close>

fun buildStack :: "token list \<Rightarrow> node list \<Rightarrow> error + node list" where
  "buildStack [] stack = Inr stack"
| "buildStack (tk # rpn) stack =
     (case tk of
        TNumber v \<Rightarrow> buildStack rpn (Number v # stack)
      | TVariable name \<Rightarrow> buildStack rpn (Variable name # stack)
      | TOperator op \<Rightarrow>
          (case OP_INFO op of
             None \<Rightarrow> Inl TypeError
           | Some info \<Rightarrow>
               (if args info = 1 then
                  (case stack of
                     arg # rest \<Rightarrow> buildStack rpn (Unary op arg # rest)
                   | _ \<Rightarrow> Inl UnaryMissingArgument)
                else
                  (case stack of
                     right # left # rest \<Rightarrow> buildStack rpn (Binary op left right # rest)
                   | _ \<Rightarrow> Inl BinaryMissingArguments)))
      | TFunction name \<Rightarrow>
          (case stack of
             arg # rest \<Rightarrow> buildStack rpn (Function name arg # rest)
           | _ \<Rightarrow> Inl FunctionMissingArgument)
      | _ \<Rightarrow> Inl UnknownTokenAST)"

definition buildAST :: "token list \<Rightarrow> error + node" where
  "buildAST rpn =
     (case buildStack rpn [] of
        Inl e \<Rightarrow> Inl e
      | Inr stack \<Rightarrow>
          (case stack of
             [n] \<Rightarrow> simplifyNode n
           | _ \<Rightarrow> Inl InvalidStructure))"

text \<open>Code unit 8722 is the minus sign U+2212, 45 the ASCII hyphen.\<close>

definition parseExpression :: "jsstring \<Rightarrow> error + node" where
  "parseExpression input =
     (if input = [] \<or> trim input = [] then Inl EmptyExpression
      else
        bindE (tokenize (replaceUnit 8722 45 input)) (\<lambda>tokens.
        bindE (toRPN tokens) (\<lambda>rpn.
        buildAST rpn)))"

section \<open>Rendering\<close>

text \<open>
  \<^verbatim>\<open>formatNumber\<close> is built from three methods of the JavaScript runtime whose digits
  depend on the binary representation of the float64: \<^verbatim>\<open>Number.prototype.toString\<close> and
  the composition of \<^verbatim>\<open>parseFloat\<close> with \<^verbatim>\<open>toFixed(6)\<close>.  They are parameters of the
  model.
\<close>

record runtime =
  numberToString :: "jsnum \<Rightarrow> jsstring"
  parseFloatToFixed6 :: "jsnum \<Rightarrow> jsnum"

definition formatNumber :: "runtime \<Rightarrow> jsnum \<Rightarrow> jsstring" where
  "formatNumber rt v =
     (if isInteger v then numberToString rt v
      else numberToString rt (parseFloatToFixed6 rt v))"

fun getPrecedence :: "node \<Rightarrow> nat" where
  "getPrecedence (Binary op left right) = (case PREC_MAP op of Some p \<Rightarrow> p | None \<Rightarrow> 1)"
| "getPrecedence (Unary op argument) = 4"
| "getPrecedence (Number v) = 5"
| "getPrecedence (Variable name) = 5"
| "getPrecedence (Function name argument) = 5"

fun needsParens :: "node \<Rightarrow> bool" where
  "needsParens (Binary op left right) = True"
| "needsParens _ = False"

datatype position = PosLeft | PosRight | PosMiddle

fun shouldWrap :: "node \<Rightarrow> nat \<Rightarrow> position \<Rightarrow> string \<Rightarrow> bool" where
  "shouldWrap (Binary op left right) parentPrec pos parentOp =
     (let childPrec = getPrecedence (Binary op left right) in
      if childPrec < parentPrec then True
      else if childPrec = parentPrec then
        (if parentOp = ''^'' then pos = PosRight
         else if parentOp = ''-'' \<or> parentOp = ''/'' then pos = PosRight
         else False)
      else False)"
| "shouldWrap _ parentPrec pos parentOp = False"

text \<open>
  \<^verbatim>\<open>nodeToString\<close>; its parameters \<^verbatim>\<open>parentOp\<close> and \<^verbatim>\<open>position\<close> are never read by the
  source and are left out.
\<close>

fun nodeToString :: "runtime \<Rightarrow> node \<Rightarrow> jsstring" where
  "nodeToString rt (Number v) = formatNumber rt v"
| "nodeToString rt (Variable name) = str name"
| "nodeToString rt (Unary op argument) =
     (let inner = nodeToString rt argument in
      if op = ''u-'' then
        str ''-'' @ (if needsParens argument then str ''('' @ inner @ str '')'' else inner)
      else str op @ inner)"
| "nodeToString rt (Function name argument) =
     str name @ str ''('' @ nodeToString rt argument @ str '')''"
| "nodeToString rt (Binary op left right) =
     (let currentPrec = getPrecedence (Binary op left right);
          leftStr = nodeToString rt left;
          rightStr = nodeToString rt right;
          leftNeeds = shouldWrap left currentPrec PosLeft op;
          rightNeeds = shouldWrap right currentPrec PosRight op;
          l = (if leftNeeds then str ''('' @ leftStr @ str '')'' else leftStr);
          r = (if rightNeeds then str ''('' @ rightStr @ str '')'' else rightStr)
      in l @ str '' '' @ str op @ str '' '' @ r)"

section \<open>The solver\<close>

fun flattenProductHelper :: "node \<Rightarrow> bool \<Rightarrow> (node \<times> bool) list" where
  "flattenProductHelper (Binary op left right) denominator =
     (if op = ''*'' then
        flattenProductHelper left denominator @ flattenProductHelper right denominator
      else if op = ''/'' then
        flattenProductHelper left denominator @ flattenProductHelper right (\<not> denominator)
      else [(Binary op left right, denominator)])"
| "flattenProductHelper current denominator = [(current, denominator)]"

definition flattenProduct :: "node \<Rightarrow> (node \<times> bool) list" where
  "flattenProduct n = flattenProductHelper n False"

text \<open>The sign of \<^verbatim>\<open>flattenSum\<close> is the number 1 or -1.\<close>

fun flattenSumHelper :: "node \<Rightarrow> int \<Rightarrow> error + node list" where
  "flattenSumHelper (Binary op left right) sign =
     (if op = ''+'' then
        (case flattenSumHelper left sign of
           Inl e \<Rightarrow> Inl e
         | Inr ls \<Rightarrow>
             (case flattenSumHelper right sign of
                Inl e \<Rightarrow> Inl e
              | Inr rs \<Rightarrow> Inr (ls @ rs)))
      else if op = ''-'' then
        (case flattenSumHelper left sign of
           Inl e \<Rightarrow> Inl e
         | Inr ls \<Rightarrow>
             (case flattenSumHelper right (- sign) of
                Inl e \<Rightarrow> Inl e
              | Inr rs \<Rightarrow> Inr (ls @ rs)))
      else if sign = - 1 then
        bindE (makeMul (Number (Fin (- 1))) (Binary op left right)) (\<lambda>m. Inr [m])
      else Inr [Binary op left right])"
| "flattenSumHelper current sign =
     (if sign = - 1 then bindE (makeMul (Number (Fin (- 1))) current) (\<lambda>m. Inr [m])
      else Inr [current])"

definition flattenSum :: "node \<Rightarrow> error + node list" where
  "flattenSum n = flattenSumHelper n 1"

text \<open>
  \<^verbatim>\<open>reduce\<close> with the initial accumulator \<^verbatim>\<open>null\<close>: the first node is taken as it is,
  every later one is combined with the accumulator.
\<close>

fun reduceNodes :: "(node \<Rightarrow> node \<Rightarrow> error + node) \<Rightarrow> node \<Rightarrow> node list \<Rightarrow> error + node" where
  "reduceNodes f acc [] = Inr acc"
| "reduceNodes f acc (n # ns) =
     (case f acc n of Inl e \<Rightarrow> Inl e | Inr acc' \<Rightarrow> reduceNodes f acc' ns)"

fun productOf :: "node list \<Rightarrow> error + node" where
  "productOf [] = Inr (Number (Fin 1))"
| "productOf (n # ns) = reduceNodes makeMul n ns"

fun sumNodes :: "node list \<Rightarrow> error + node" where
  "sumNodes [] = Inr (Number (Fin 0))"
| "sumNodes (n # ns) = reduceNodes makeAdd n ns"

definition buildProduct :: "node list \<Rightarrow> node list \<Rightarrow> error + node" where
  "buildProduct numeratorNodes denominatorNodes =
     bindE (productOf numeratorNodes) (\<lambda>p.
     bindE (reduceNodes makeDiv p denominatorNodes) (\<lambda>result.
     simplifyNode result))"

text \<open>
  \<^verbatim>\<open>detectSeparable\<close>.  The loop only sorts the factors into six lists and returns
  \<^verbatim>\<open>null\<close> at a factor that depends on both variables, so the lists are written as
  filters of the factor list.
\<close>

definition detectSeparable :: "node \<Rightarrow> error + (node \<times> node) option" where
  "detectSeparable rhs =
     (let factors = flattenProduct rhs;
          hasX = (\<lambda>f. dependsOn (fst f) ''x'');
          hasY = (\<lambda>f. dependsOn (fst f) ''y'');
          pick = (\<lambda>P. map fst (filter P factors));
          yNum = pick (\<lambda>f. hasY f \<and> \<not> snd f);
          yDen = pick (\<lambda>f. hasY f \<and> snd f);
          xNum = pick (\<lambda>f. \<not> hasY f \<and> hasX f \<and> \<not> snd f);
          xDen = pick (\<lambda>f. \<not> hasY f \<and> hasX f \<and> snd f);
          cNum = pick (\<lambda>f. \<not> hasY f \<and> \<not> hasX f \<and> \<not> snd f);
          cDen = pick (\<lambda>f. \<not> hasY f \<and> \<not> hasX f \<and> snd f)
      in if list_ex (\<lambda>f. hasX f \<and> hasY f) factors then Inr None
         else if yNum = [] \<and> yDen = [] then Inr None
         else
           bindE (buildProduct (xNum @ cNum) (xDen @ cDen)) (\<lambda>xPart.
           bindE (buildProduct yNum yDen) (\<lambda>yPart.
           if \<not> dependsOn yPart ''y'' then Inr None
           else Inr (Some (xPart, yPart)))))"

text \<open>The test of \<^verbatim>\<open>extractLinearCoefficient\<close> for a factor \<^verbatim>\<open>y ^ number\<close>.\<close>

fun yPower :: "node \<Rightarrow> jsnum option" where
  "yPower (Binary op left (Number v)) =
     (if op = ''^'' \<and> isVariableNode left ''y'' then Some v else None)"
| "yPower _ = None"

fun coefficientLoop ::
  "(node \<times> bool) list \<Rightarrow> node list \<Rightarrow> node list \<Rightarrow> nat
     \<Rightarrow> (node list \<times> node list \<times> nat) option" where
  "coefficientLoop [] numerator denominator yCount = Some (numerator, denominator, yCount)"
| "coefficientLoop ((n, inDenominator) # factors) numerator denominator yCount =
     (if inDenominator then
        (if dependsOn n ''y'' then None
         else coefficientLoop factors numerator (denominator @ [n]) yCount)
      else if isVariableNode n ''y'' then
        coefficientLoop factors numerator denominator (yCount + 1)
      else
        (case yPower n of
           Some v \<Rightarrow>
             (if js_lt (Math_abs (js_sub v (Fin 1))) tol9
              then coefficientLoop factors numerator denominator (yCount + 1)
              else None)
         | None \<Rightarrow>
             (if dependsOn n ''y'' then None
              else coefficientLoop factors (numerator @ [n]) denominator yCount)))"

definition extractLinearCoefficient :: "node \<Rightarrow> error + node option" where
  "extractLinearCoefficient term =
     (case coefficientLoop (flattenProduct term) [] [] 0 of
        None \<Rightarrow> Inr None
      | Some (numerator, denominator, yCount) \<Rightarrow>
          (if yCount \<noteq> 1 then Inr None
           else okE (buildProduct numerator denominator)))"

fun linearLoop ::
  "node list \<Rightarrow> node list \<Rightarrow> node list \<Rightarrow> error + (node list \<times> node list) option" where
  "linearLoop [] coefficientTerms freeTerms = Inr (Some (coefficientTerms, freeTerms))"
| "linearLoop (term # terms) coefficientTerms freeTerms =
     (if dependsOn term ''y'' then
        (case extractLinearCoefficient term of
           Inl e \<Rightarrow> Inl e
         | Inr None \<Rightarrow> Inr None
         | Inr (Some coeff) \<Rightarrow> linearLoop terms (coefficientTerms @ [coeff]) freeTerms)
      else linearLoop terms coefficientTerms (freeTerms @ [term]))"

definition detectLinear :: "node \<Rightarrow> error + (node \<times> node) option" where
  "detectLinear rhs =
     bindE (flattenSum rhs) (\<lambda>terms.
     bindE (linearLoop terms [] []) (\<lambda>r.
     case r of
       None \<Rightarrow> Inr None
     | Some (coefficientTerms, freeTerms) \<Rightarrow>
         (if coefficientTerms = [] then Inr None
          else
            bindE (sumNodes coefficientTerms) (\<lambda>s.
            bindE (simplifyNode s) (\<lambda>aNode.
            bindE (sumNodes freeTerms) (\<lambda>t.
            bindE (simplifyNode t) (\<lambda>bNode.
            if dependsOn aNode ''y'' \<or> dependsOn bNode ''y'' then Inr None
            else Inr (Some (aNode, bNode)))))))))"

datatype classified =
    Direct node
  | Separable node node node
  | Linear node node node
  | UnsupportedClass node

definition classifyEquation :: "node \<Rightarrow> error + classified" where
  "classifyEquation rhs =
     (if \<not> dependsOn rhs ''y'' then Inr (Direct rhs)
      else
        bindE (detectSeparable rhs) (\<lambda>separable.
        case separable of
          Some (xPart, yPart) \<Rightarrow> Inr (Separable rhs xPart yPart)
        | None \<Rightarrow>
            bindE (detectLinear rhs) (\<lambda>linear.
            case linear of
              Some (aNode, bNode) \<Rightarrow> Inr (Linear rhs aNode bNode)
            | None \<Rightarrow> Inr (UnsupportedClass rhs))))"

text \<open>
  The result of \<^verbatim>\<open>processEquation\<close>.  The titles, descriptions and the hint are fixed
  Persian prose; of each step the model keeps the optional equation line.  Code units:
  8747 the integral sign, 956 the letter mu, 183 the middle dot, 1548 the Arabic comma.
\<close>

record solution =
  classification :: string
  normalizedEquation :: jsstring
  steps :: "jsstring option list"
  finalSolution :: jsstring
  rhsNode :: node

datatype result = Ok solution | Unsupported | Failed error

fun status :: "result \<Rightarrow> string" where
  "status (Ok s) = ''ok''"
| "status Unsupported = ''unsupported''"
| "status (Failed e) = ''error''"

record parsed =
  rhs :: node
  parsedEquation :: jsstring

definition parseDifferentialEquation :: "runtime \<Rightarrow> jsstring \<Rightarrow> error + parsed" where
  "parseDifferentialEquation rt rawInput =
     (let cleaned = trim (replaceUnit 1548 44 (replaceSpaceRuns (str '' '') False rawInput)) in
      if 61 \<notin> set cleaned then Inl MissingEquals
      else
        (case map trim (split 61 cleaned) of
           lhsRaw # rhsRaw # rest \<Rightarrow>
             (if toLowerCase (replaceSpaceRuns [] False lhsRaw) \<noteq> str ''dy/dx''
              then Inl BadLeftSide
              else
                bindE (parseExpression rhsRaw) (\<lambda>rhsAst.
                Inr \<lparr>rhs = rhsAst,
                     parsedEquation = str ''dy/dx = '' @ nodeToString rt rhsAst\<rparr>))
         | _ \<Rightarrow> Inl TypeError))"

definition buildDirectSolution :: "runtime \<Rightarrow> parsed \<Rightarrow> node \<Rightarrow> error + result" where
  "buildDirectSolution rt p rhsN =
     bindE (integrate rhsN ''x'') (\<lambda>integral.
     case integral of
       None \<Rightarrow> Inl DirectNotIntegrable
     | Some i \<Rightarrow>
         (let rhsText = nodeToString rt rhsN;
              integralText = nodeToString rt i
          in Inr (Ok \<lparr>classification = ''direct'',
                normalizedEquation = parsedEquation p,
                steps = [None,
                  Some ([8747] @ str '' dy = '' @ [8747] @ str '' ('' @ rhsText @ str '') dx''),
                  Some (str ''y(x) = '' @ integralText @ str '' + C'')],
                finalSolution = str ''y(x) = '' @ integralText @ str '' + C'',
                rhsNode = rhsN\<rparr>)))"

fun deriveExplicitFromSeparable :: "runtime \<Rightarrow> node \<Rightarrow> node \<Rightarrow> jsstring option" where
  "deriveExplicitFromSeparable rt (Function name (Function name' argument)) rightIntegral =
     (if name = ''ln'' \<and> name' = ''abs'' \<and> isVariableNode argument ''y''
      then Some (str ''y = C '' @ [183] @ str '' exp('' @ nodeToString rt rightIntegral @ str '')'')
      else None)"
| "deriveExplicitFromSeparable rt leftIntegral rightIntegral = None"

definition buildSeparableSolution ::
  "runtime \<Rightarrow> parsed \<Rightarrow> node \<Rightarrow> node \<Rightarrow> node \<Rightarrow> error + result" where
  "buildSeparableSolution rt p rhsN xPart yPart =
     (let xText = nodeToString rt xPart;
          yText = nodeToString rt yPart
      in
        bindE (makeDiv (Number (Fin 1)) yPart) (\<lambda>d.
        bindE (simplifyNode d) (\<lambda>leftIntegrand.
        bindE (simplifyNode xPart) (\<lambda>rightIntegrand.
        bindE (integrate leftIntegrand ''y'') (\<lambda>leftIntegral.
        bindE (integrate rightIntegrand ''x'') (\<lambda>rightIntegral.
        case (leftIntegral, rightIntegral) of
          (Some li, Some ri) \<Rightarrow>
            (let leftText = nodeToString rt li;
                 rightText = nodeToString rt ri;
                 implicitSolution = leftText @ str '' = '' @ rightText @ str '' + C'';
                 explicit = deriveExplicitFromSeparable rt li ri
             in Inr (Ok \<lparr>classification = ''separable'',
                   normalizedEquation = parsedEquation p,
                   steps = [None,
                     Some (str ''1/('' @ yText @ str '') dy = ('' @ xText @ str '') dx''),
                     Some ([8747] @ str '' 1/('' @ yText @ str '') dy = '' @ [8747]
                           @ str '' ('' @ xText @ str '') dx''),
                     Some implicitSolution]
                     @ (case explicit of Some e \<Rightarrow> [Some e] | None \<Rightarrow> []),
                   finalSolution =
                     (case explicit of Some e \<Rightarrow> e | None \<Rightarrow> implicitSolution),
                   rhsNode = rhsN\<rparr>))
        | _ \<Rightarrow> Inl SeparableNotIntegrable))))))"

definition buildLinearSolution ::
  "runtime \<Rightarrow> parsed \<Rightarrow> node \<Rightarrow> node \<Rightarrow> node \<Rightarrow> error + result" where
  "buildLinearSolution rt p rhsN aNode bNode =
     bindE (makeNeg aNode) (\<lambda>na.
     bindE (simplifyNode na) (\<lambda>P.
     bindE (simplifyNode bNode) (\<lambda>Q.
     let pText = nodeToString rt P;
         qText = nodeToString rt Q
     in
       bindE (integrate P ''x'') (\<lambda>integralP.
       case integralP of
         None \<Rightarrow> Inl LinearPNotIntegrable
       | Some iP \<Rightarrow>
           bindE (simplifyNode (Function ''exp'' (cloneNode iP))) (\<lambda>muNode.
           let muText = nodeToString rt muNode;
               integralPText = nodeToString rt iP
           in
             bindE (makeMul muNode Q) (\<lambda>m.
             bindE (simplifyNode m) (\<lambda>muQNode.
             bindE (integrate muQNode ''x'') (\<lambda>integralMuQ.
             let muQText = nodeToString rt muQNode;
                 finalExpression =
                   (case integralMuQ of
                      Some i \<Rightarrow>
                        str ''y(x) = ('' @ nodeToString rt i @ str '' + C) / '' @ muText
                    | None \<Rightarrow>
                        str ''y(x) = (1/'' @ muText @ str '') * ('' @ [8747] @ str '' (''
                        @ muQText @ str '') dx + C)'')
             in Inr (Ok \<lparr>classification = ''linear'',
                   normalizedEquation = parsedEquation p,
                   steps = [None,
                     Some (str ''P(x) = '' @ pText @ str ''   '' @ [1548] @ str ''   Q(x) = ''
                           @ qText),
                     Some ([956] @ str ''(x) = exp('' @ integralPText @ str '') = '' @ muText),
                     Some (str ''d/dx ['' @ [956] @ str ''(x) '' @ [183] @ str '' y] = '' @ [956]
                           @ str ''(x) '' @ [183] @ str '' Q(x) = '' @ muQText),
                     Some ([956] @ str ''(x) '' @ [183] @ str '' y = '' @ [8747] @ str '' (''
                           @ muQText @ str '') dx + C''),
                     Some finalExpression],
                   finalSolution = finalExpression,
                   rhsNode = rhsN\<rparr>)))))))))"

text \<open>
  \<^verbatim>\<open>processEquation\<close>: the body of the \<^verbatim>\<open>try\<close> block, and the \<^verbatim>\<open>catch\<close> clause that
  turns every exception into a result with status \<^verbatim>\<open>error\<close>.
\<close>

definition processBody :: "runtime \<Rightarrow> jsstring \<Rightarrow> error + result" where
  "processBody rt rawInput =
     bindE (parseDifferentialEquation rt rawInput) (\<lambda>p.
     bindE (classifyEquation (rhs p)) (\<lambda>c.
     case c of
       Direct rhsN \<Rightarrow> buildDirectSolution rt p rhsN
     | Separable rhsN xPart yPart \<Rightarrow> buildSeparableSolution rt p rhsN xPart yPart
     | Linear rhsN aNode bNode \<Rightarrow> buildLinearSolution rt p rhsN aNode bNode
     | UnsupportedClass rhsN \<Rightarrow> Inr Unsupported))"

definition processEquation :: "runtime \<Rightarrow> jsstring \<Rightarrow> result" where
  "processEquation rt rawInput =
     (case processBody rt rawInput of Inl e \<Rightarrow> Failed e | Inr r \<Rightarrow> r)"

section \<open>The numeric sampler\<close>

type_synonym point = "jsnum \<times> jsnum"

definition safeEval :: "(jsnum \<Rightarrow> jsnum \<Rightarrow> jsnum) \<Rightarrow> jsnum \<Rightarrow> jsnum \<Rightarrow> jsnum" where
  "safeEval f x y = (let v = f x y in if \<not> isFinite v then Fin 0 else v)"

definition rungeKuttaStep ::
  "(jsnum \<Rightarrow> jsnum \<Rightarrow> jsnum) \<Rightarrow> jsnum \<Rightarrow> jsnum \<Rightarrow> jsnum \<Rightarrow> point" where
  "rungeKuttaStep f x y h =
     (let k1 = safeEval f x y;
          k2 = safeEval f (js_add x (js_div h (Fin 2))) (js_add y (js_div (js_mul h k1) (Fin 2)));
          k3 = safeEval f (js_add x (js_div h (Fin 2))) (js_add y (js_div (js_mul h k2) (Fin 2)));
          k4 = safeEval f (js_add x h) (js_add y (js_mul h k3));
          nextY = js_add y (js_mul (js_div h (Fin 6))
                    (js_add (js_add (js_add k1 (js_mul (Fin 2) k2)) (js_mul (Fin 2) k3)) k4));
          nextX = js_add x h
      in if \<not> isFinite nextY then (nextX, NaN) else (nextX, nextY))"

text \<open>
  The loop of \<^verbatim>\<open>integrateDirection\<close>, with the number of iterations that remain: it
  breaks at the first step whose \<open>y\<close> is not finite, and otherwise appends the point.
\<close>

fun directionLoop ::
  "(jsnum \<Rightarrow> jsnum \<Rightarrow> jsnum) \<Rightarrow> jsnum \<Rightarrow> nat \<Rightarrow> jsnum \<Rightarrow> jsnum \<Rightarrow> point list" where
  "directionLoop f h 0 x y = []"
| "directionLoop f h (Suc n) x y =
     (let next = rungeKuttaStep f x y h in
      if \<not> isFinite (snd next) then []
      else next # directionLoop f h n (fst next) (snd next))"

definition integrateDirection ::
  "(jsnum \<Rightarrow> jsnum \<Rightarrow> jsnum) \<Rightarrow> jsnum \<Rightarrow> jsnum \<Rightarrow> jsnum \<Rightarrow> nat \<Rightarrow> jsnum \<Rightarrow> point list" where
  "integrateDirection f x0 y0 spanArg stepCount direction =
     directionLoop f (js_mul (js_div spanArg (Fin (real stepCount))) direction) stepCount x0 y0"

text \<open>
  The options of \<^verbatim>\<open>renderSolutionChart\<close>; \<open>None\<close> is a missing property.  A span that
  is missing, a zero or NaN is replaced by \<^verbatim>\<open>DEFAULT_SPAN\<close>.
\<close>

record options =
  optSpan :: "jsnum option"
  optX0 :: "jsnum option"
  optY0 :: "jsnum option"

definition DEFAULT_SPAN :: jsnum where
  "DEFAULT_SPAN = Fin 4"

definition spanOf :: "options \<Rightarrow> jsnum" where
  "spanOf opts =
     (case optSpan opts of
        None \<Rightarrow> DEFAULT_SPAN
      | Some s \<Rightarrow> (if isZero s \<or> s = NaN then DEFAULT_SPAN else s))"

text \<open>The initial point: \<^verbatim>\<open>options.x0 ?? 0\<close> and \<^verbatim>\<open>options.y0 ?? 1\<close>.\<close>

definition x0Of :: "options \<Rightarrow> jsnum" where
  "x0Of opts = (case optX0 opts of None \<Rightarrow> Fin 0 | Some v \<Rightarrow> v)"

definition y0Of :: "options \<Rightarrow> jsnum" where
  "y0Of opts = (case optY0 opts of None \<Rightarrow> Fin 1 | Some v \<Rightarrow> v)"

text \<open>
  The points of \<^verbatim>\<open>renderSolutionChart\<close> before the filter: the backward sequence
  reversed, the initial point, the forward sequence.
\<close>

definition chartPoints :: "(jsnum \<Rightarrow> jsnum \<Rightarrow> jsnum) \<Rightarrow> options \<Rightarrow> point list" where
  "chartPoints derivativeFn opts =
     (let spanArg = spanOf opts;
          x0 = x0Of opts;
          y0 = y0Of opts;
          forwardPoints = integrateDirection derivativeFn x0 y0 spanArg 160 (Fin 1);
          backwardPoints = integrateDirection derivativeFn x0 y0 spanArg 160 (Fin (- 1))
      in rev backwardPoints @ [(x0, y0)] @ forwardPoints)"

section \<open>Notions used in the statements\<close>

text \<open>
  The comparison \<^verbatim>\<open><=\<close> of two numbers: false when an operand is NaN, and otherwise
  the negation of \<^verbatim>\<open>b < a\<close>.
\<close>

definition js_le :: "jsnum \<Rightarrow> jsnum \<Rightarrow> bool" where
  "js_le a b = (a \<noteq> NaN \<and> b \<noteq> NaN \<and> \<not> js_lt b a)"

text \<open>
  \<open>rk4Run f h n x0 y0 pts\<close>: the list \<open>pts\<close> is the run of at most \<open>n\<close> Runge-Kutta steps
  of size \<open>h\<close> from \<open>(x0, y0)\<close>, oldest first, that ends before the first step whose \<open>y\<close>
  is not finite.
\<close>

definition rk4Run ::
  "(jsnum \<Rightarrow> jsnum \<Rightarrow> jsnum) \<Rightarrow> jsnum \<Rightarrow> nat \<Rightarrow> jsnum \<Rightarrow> jsnum \<Rightarrow> point list \<Rightarrow> bool" where
  "rk4Run f h n x0 y0 pts =
     (length pts \<le> n
      \<and> list_all (\<lambda>i. isFinite (snd (pts ! i))
            \<and> pts ! i = rungeKuttaStep f (fst (((x0, y0) # pts) ! i))
                           (snd (((x0, y0) # pts) ! i)) h) [0..<length pts]
      \<and> (n \<le> length pts
          \<or> \<not> isFinite (snd (rungeKuttaStep f (fst (last ((x0, y0) # pts)))
                 (snd (last ((x0, y0) # pts))) h))))"

text \<open>The binary operators of a node are among the five that \<^verbatim>\<open>evalBinary\<close> knows.\<close>

fun knownOperators :: "node \<Rightarrow> bool" where
  "knownOperators (Number v) = True"
| "knownOperators (Variable name) = True"
| "knownOperators (Unary op argument) = knownOperators argument"
| "knownOperators (Function name argument) = knownOperators argument"
| "knownOperators (Binary op left right) =
     (op \<in> set [''+'', ''-'', ''*'', ''/'', ''^''] \<and> knownOperators left \<and> knownOperators right)"

text \<open>
  A node passes the identity tests exactly: if it is a number within the tolerance of 0
  it is a zero, and if it is a number within the tolerance of 1 it is the number 1.
\<close>

definition nearExact :: "node \<Rightarrow> bool" where
  "nearExact n =
     ((\<not> isZeroNode n \<or> n = Number (Fin 0) \<or> n = Number NZero)
      \<and> (\<not> isOneNode n \<or> n = Number (Fin 1)))"

definition nearExactResult :: "error + node \<Rightarrow> bool" where
  "nearExactResult r = (case r of Inl e \<Rightarrow> True | Inr n \<Rightarrow> nearExact n)"

text \<open>Every simplified operand of every binary node passes the identity tests exactly.\<close>

fun exactTests :: "node \<Rightarrow> bool" where
  "exactTests (Number v) = True"
| "exactTests (Variable name) = True"
| "exactTests (Unary op argument) = exactTests argument"
| "exactTests (Function name argument) = exactTests argument"
| "exactTests (Binary op left right) =
     (exactTests left \<and> exactTests right
      \<and> nearExactResult (simplifyNode left) \<and> nearExactResult (simplifyNode right))"

text \<open>
  A node evaluates at a scope to a finite number; and so does every subexpression of it.
\<close>

definition evaluatesFinite :: "node \<Rightarrow> (string \<rightharpoonup> jsnum) \<Rightarrow> bool" where
  "evaluatesFinite n scope = (case evaluateNode n scope of Inl e \<Rightarrow> False | Inr v \<Rightarrow> isFinite v)"

fun finiteEval :: "node \<Rightarrow> (string \<rightharpoonup> jsnum) \<Rightarrow> bool" where
  "finiteEval (Number v) scope = isFinite v"
| "finiteEval (Variable name) scope = evaluatesFinite (Variable name) scope"
| "finiteEval (Unary op argument) scope =
     (finiteEval argument scope \<and> evaluatesFinite (Unary op argument) scope)"
| "finiteEval (Function name argument) scope =
     (finiteEval argument scope \<and> evaluatesFinite (Function name argument) scope)"
| "finiteEval (Binary op left right) scope =
     (finiteEval left scope \<and> finiteEval right scope
      \<and> evaluatesFinite (Binary op left right) scope)"

text \<open>
  Two results of an evaluation are finite numbers with the same real value; they may
  differ in the sign of a zero.
\<close>

definition sameReal :: "error + jsnum \<Rightarrow> error + jsnum \<Rightarrow> bool" where
  "sameReal a b =
     (case (a, b) of
        (Inr v, Inr w) \<Rightarrow> isFinite v \<and> isFinite w \<and> realOf v = realOf w
      | _ \<Rightarrow> False)"

text \<open>A computation does not throw, and its result satisfies \<open>P\<close>.\<close>

definition returnsWith :: "('a \<Rightarrow> bool) \<Rightarrow> error + 'a \<Rightarrow> bool" where
  "returnsWith P r = (case r of Inl e \<Rightarrow> False | Inr x \<Rightarrow> P x)"

text \<open>
  The expressions that \<open>matchLinearRecursive\<close> walks for a variable \<open>v\<close>: a subexpression
  without \<open>v\<close>, the variable \<open>v\<close>, and from these a negation, a sum, a difference, a product
  with a numeric literal on either side and a quotient by a numeric literal outside the
  tolerance of zero.
\<close>

fun affineIn :: "node \<Rightarrow> string \<Rightarrow> bool" where
  "affineIn (Number c) v = True"
| "affineIn (Variable name) v = True"
| "affineIn (Unary op argument) v =
     (\<not> dependsOn argument v \<or> (op = ''u-'' \<and> affineIn argument v))"
| "affineIn (Function name argument) v = (\<not> dependsOn argument v)"
| "affineIn (Binary op left right) v =
     (\<not> dependsOn (Binary op left right) v
      \<or> ((op = ''+'' \<or> op = ''-'') \<and> affineIn left v \<and> affineIn right v)
      \<or> (op = ''*'' \<and> isNumberNode left \<and> affineIn right v)
      \<or> (op = ''*'' \<and> dependsOn left v \<and> isNumberNode right \<and> affineIn left v)
      \<or> (op = ''/'' \<and> isNumberNode right \<and> \<not> isZeroNode right \<and> affineIn left v))"





section \<open>Facts about numbers\<close>

lemmas number_defs = js_mul_def js_div_def js_sub_def js_neq_def js_gt_def isZero_def
  signedZero_def signedInf_def tol9_def

lemma js_mul_Fin:
  "js_mul (Fin a) (Fin b) =
     (if a = 0 \<or> b = 0 then signedZero ((a < 0) \<noteq> (b < 0)) else Fin (a * b))"
  by (simp add: js_mul_def)

lemma js_div_Fin:
  "js_div (Fin a) (Fin b) =
     (if b = 0 then (if a = 0 then NaN else signedInf (a < 0))
      else if a = 0 then signedZero (b < 0) else Fin (a / b))"
  by (simp add: js_div_def isZero_def)

text \<open>The rules that evaluate the arithmetic of finite numbers.\<close>

lemmas number_simps = js_mul_Fin js_div_Fin js_sub_def js_neq_def js_gt_def isZero_def
  signedZero_def signedInf_def tol9_def

lemma js_add_finite: "isFinite a \<Longrightarrow> isFinite b \<Longrightarrow> isFinite (js_add a b)"
  by (cases a; cases b) simp_all

lemma js_mul_finite: "isFinite a \<Longrightarrow> isFinite b \<Longrightarrow> isFinite (js_mul a b)"
  by (cases a; cases b) (simp_all add: number_defs)

section \<open>Properties of the simplifier\<close>

lemma simplifyBinary_nonnum:
  "\<not> (isNumberNode left \<and> isNumberNode right) \<Longrightarrow> simplifyBinary op left right =
     (if op = ''+'' \<and> isZeroNode left then Inr right
      else if op = ''+'' \<and> isZeroNode right then Inr left
      else if op = ''-'' \<and> isZeroNode right then Inr left
      else if op = ''*'' \<and> (isZeroNode left \<or> isZeroNode right) then Inr (Number (Fin 0))
      else if op = ''*'' \<and> isOneNode left then Inr right
      else if op = ''*'' \<and> isOneNode right then Inr left
      else if op = ''/'' \<and> isZeroNode left then Inr (Number (Fin 0))
      else if op = ''/'' \<and> isOneNode right then Inr left
      else if op = ''^'' \<and> isZeroNode right then Inr (Number (Fin 1))
      else if op = ''^'' \<and> isOneNode right then Inr left
      else Inr (Binary op left right))"
  by (cases left; cases right) simp_all

lemma simplifyBinary_fixed:
  assumes "simplifyBinary op left right = Inr m"
    and "simplifyNode left = Inr left" and "simplifyNode right = Inr right"
  shows "simplifyNode m = Inr m"
proof (cases "isNumberNode left \<and> isNumberNode right")
  case True
  then obtain a b where "left = Number a" "right = Number b"
    by (cases left; cases right) auto
  with assms(1) show ?thesis
    by (auto split: sum.splits)
next
  case False
  note eq = simplifyBinary_nonnum[OF False, of op]
  consider "m = left" | "m = right" | "m = Number (Fin 0)" | "m = Number (Fin 1)"
    | "m = Binary op left right" "simplifyBinary op left right = Inr (Binary op left right)"
    using assms(1) unfolding eq by (auto split: if_splits)
  then show ?thesis
  proof cases
    case 5
    then show ?thesis using assms(2,3) by simp
  qed (use assms(2,3) in simp_all)
qed

lemma simplifyNode_fixed:
  "simplifyNode n = Inr m \<Longrightarrow> simplifyNode m = Inr m"
proof (induction n arbitrary: m)
  case (Number v)
  then show ?case by auto
next
  case (Variable name)
  then show ?case by auto
next
  case (Unary op argument)
  then show ?case
    by (auto split: sum.splits if_splits node.splits)
next
  case (Function name argument)
  then show ?case
    by (auto split: sum.splits)
next
  case (Binary op l r)
  from Binary.prems obtain left right where
    l: "simplifyNode l = Inr left" and r: "simplifyNode r = Inr right"
    and b: "simplifyBinary op left right = Inr m"
    by (auto split: sum.splits)
  show ?case
    by (rule simplifyBinary_fixed[OF b Binary.IH(1)[OF l] Binary.IH(2)[OF r]])
qed

text \<open>
  C2.  Simplification is idempotent: for every node \<open>n\<close>, simplifying the result of
  \<open>simplifyNode n\<close> again gives the result of \<open>simplifyNode n\<close>, the same node when a
  node is returned and the same exception when the first call throws.
\<close>

theorem simplifyNode_idempotent:
  "bindE (simplifyNode n) simplifyNode = simplifyNode n"
  by (cases "simplifyNode n") (simp_all add: bindE_def simplifyNode_fixed)

theorem simplifyNode_idempotent_witness:
  "simplifyNode (Binary ''+'' (Number (Fin 0)) (Binary ''*'' (Variable ''x'') (Number (Fin 1))))
     = Inr (Variable ''x'')
   \<and> bindE (simplifyNode (Binary ''+'' (Number (Fin 0))
               (Binary ''*'' (Variable ''x'') (Number (Fin 1))))) simplifyNode
     = Inr (Variable ''x'')"
  using simplifyNode_idempotent
    [of "Binary ''+'' (Number (Fin 0)) (Binary ''*'' (Variable ''x'') (Number (Fin 1)))"]
  by (simp add: number_simps)

section \<open>The derivative evaluator\<close>

text \<open>
  C8.  The function returned by \<open>createDerivativeEvaluator\<close> is total: for every node and
  all numbers \<open>x\<close> and \<open>y\<close> it returns a finite number or NaN, and it returns NaN exactly
  when \<open>evaluateNode\<close> throws or produces a value that is not finite.  (A variable whose
  name is a property that every JavaScript object inherits is outside the model; the
  parser produces no such name.)
\<close>

theorem createDerivativeEvaluator_total:
  "(isFinite (createDerivativeEvaluator n x y) \<or> createDerivativeEvaluator n x y = NaN)
   \<and> (createDerivativeEvaluator n x y = NaN \<longleftrightarrow>
        (\<exists>e. evaluateNode n [''x'' \<mapsto> x, ''y'' \<mapsto> y] = Inl e)
        \<or> (\<exists>v. evaluateNode n [''x'' \<mapsto> x, ''y'' \<mapsto> y] = Inr v \<and> \<not> isFinite v))"
proof (cases "evaluateNode n [''x'' \<mapsto> x, ''y'' \<mapsto> y]")
  case (Inl e)
  then show ?thesis by (simp add: createDerivativeEvaluator_def)
next
  case (Inr v)
  then show ?thesis by (cases v) (simp_all add: createDerivativeEvaluator_def)
qed

theorem createDerivativeEvaluator_total_witness:
  "createDerivativeEvaluator (Variable ''z'') (Fin 1) (Fin 2) = NaN
   \<and> evaluateNode (Variable ''z'') [''x'' \<mapsto> Fin 1, ''y'' \<mapsto> Fin 2] = Inl (UndefinedVariable ''z'')
   \<and> createDerivativeEvaluator (Binary ''%'' (Variable ''x'') (Variable ''y'')) (Fin 1) (Fin 2) = NaN
   \<and> evaluateNode (Binary ''%'' (Variable ''x'') (Variable ''y''))
        [''x'' \<mapsto> Fin 1, ''y'' \<mapsto> Fin 2] = Inl UnknownOperatorEvaluate
   \<and> createDerivativeEvaluator (Binary ''/'' (Variable ''y'') (Variable ''x'')) (Fin 0) (Fin 2) = NaN
   \<and> evaluateNode (Binary ''/'' (Variable ''y'') (Variable ''x''))
        [''x'' \<mapsto> Fin 0, ''y'' \<mapsto> Fin 2] = Inr PInf
   \<and> createDerivativeEvaluator (Binary ''/'' (Variable ''y'') (Variable ''x'')) (Fin 4) (Fin 2)
        = Fin (1 / 2)"
  using createDerivativeEvaluator_total [of "Variable ''z''" "Fin 1" "Fin 2"]
    createDerivativeEvaluator_total
      [of "Binary ''%'' (Variable ''x'') (Variable ''y'')" "Fin 1" "Fin 2"]
    createDerivativeEvaluator_total
      [of "Binary ''/'' (Variable ''y'') (Variable ''x'')" "Fin 0" "Fin 2"]
    createDerivativeEvaluator_total
      [of "Binary ''/'' (Variable ''y'') (Variable ''x'')" "Fin 4" "Fin 2"]
  by (simp add: createDerivativeEvaluator_def applyOperator_def number_simps)

section \<open>The numeric sampler\<close>

lemma directionLoop_length: "length (directionLoop f h n x y) \<le> n"
  by (induction n arbitrary: x y) (auto simp: Let_def)

lemma directionLoop_finite: "p \<in> set (directionLoop f h n x y) \<Longrightarrow> isFinite (snd p)"
  by (induction n arbitrary: x y) (auto simp: Let_def split: if_splits)

lemma directionLoop_Suc_stop:
  "\<not> isFinite (snd (rungeKuttaStep f x y h)) \<Longrightarrow> directionLoop f h (Suc n) x y = []"
  by (simp add: Let_def)

lemma directionLoop_Suc_go:
  "isFinite (snd (rungeKuttaStep f x y h)) \<Longrightarrow>
   directionLoop f h (Suc n) x y =
     rungeKuttaStep f x y h
       # directionLoop f h n (fst (rungeKuttaStep f x y h)) (snd (rungeKuttaStep f x y h))"
  by (simp add: Let_def)

lemma directionLoop_nth:
  "i < length (directionLoop f h n x y) \<Longrightarrow>
   directionLoop f h n x y ! i =
     rungeKuttaStep f (fst (((x, y) # directionLoop f h n x y) ! i))
       (snd (((x, y) # directionLoop f h n x y) ! i)) h"
proof (induction n arbitrary: x y i)
  case 0
  then show ?case by simp
next
  case (Suc n)
  let ?next = "rungeKuttaStep f x y h"
  have fin: "isFinite (snd ?next)"
  proof (rule ccontr)
    assume "\<not> isFinite (snd ?next)"
    from directionLoop_Suc_stop[OF this] Suc.prems show False by simp
  qed
  note unf = directionLoop_Suc_go[OF fin, of n]
  show ?case
  proof (cases i)
    case 0
    then show ?thesis unfolding unf by simp
  next
    case (Suc j)
    with Suc.prems have "j < length (directionLoop f h n (fst ?next) (snd ?next))"
      unfolding unf by simp
    from Suc.IH[OF this] Suc show ?thesis unfolding unf by simp
  qed
qed

lemma directionLoop_stop:
  "length (directionLoop f h n x y) < n \<Longrightarrow>
   \<not> isFinite (snd (rungeKuttaStep f (fst (last ((x, y) # directionLoop f h n x y)))
       (snd (last ((x, y) # directionLoop f h n x y))) h))"
proof (induction n arbitrary: x y)
  case 0
  then show ?case by simp
next
  case (Suc n)
  let ?next = "rungeKuttaStep f x y h"
  show ?case
  proof (cases "isFinite (snd ?next)")
    case False
    then show ?thesis unfolding directionLoop_Suc_stop[OF False] by simp
  next
    case True
    note unf = directionLoop_Suc_go[OF True, of n]
    from Suc.prems have "length (directionLoop f h n (fst ?next) (snd ?next)) < n"
      unfolding unf by simp
    from Suc.IH[OF this] show ?thesis unfolding unf by simp
  qed
qed

lemma js_le_trans: "js_le a b \<Longrightarrow> js_le b c \<Longrightarrow> js_le a c"
  by (cases a; cases b; cases c) (auto simp: js_le_def)

lemma safeEval_finite: "isFinite (safeEval f x y)"
  by (simp add: safeEval_def Let_def)

lemma rungeKuttaStep_fst: "fst (rungeKuttaStep f x y h) = js_add x h"
  by (simp add: rungeKuttaStep_def Let_def)

lemma slope_sum_finite:
  "isFinite (js_add (js_add (js_add (safeEval f a b) (js_mul (Fin 2) (safeEval f c d)))
          (js_mul (Fin 2) (safeEval f e g))) (safeEval f p q))"
  by (intro js_add_finite js_mul_finite safeEval_finite) simp_all

lemma infinite_increment:
  "\<not> isFinite h \<Longrightarrow> isFinite K \<Longrightarrow> \<not> isFinite (js_add y (js_mul (js_div h (Fin 6)) K))"
  by (cases h; cases y; cases K) (simp_all add: number_defs)

lemma rungeKuttaStep_infinite_h:
  assumes "\<not> isFinite h" shows "\<not> isFinite (snd (rungeKuttaStep f x y h))"
  using infinite_increment[OF assms slope_sum_finite]
  unfolding rungeKuttaStep_def Let_def by simp

lemma directionLoop_infinite_h: "\<not> isFinite h \<Longrightarrow> directionLoop f h n x y = []"
  by (cases n) (simp_all add: directionLoop_Suc_stop rungeKuttaStep_infinite_h del: directionLoop.simps(2))

lemma directionLoop_ascending:
  "0 \<le> r \<Longrightarrow> x \<noteq> NaN \<Longrightarrow>
   sorted_wrt js_le (map fst (directionLoop f (Fin r) n x y))
   \<and> (\<forall>p \<in> set (directionLoop f (Fin r) n x y). js_le x (fst p))"
proof (induction n arbitrary: x y)
  case 0
  then show ?case by simp
next
  case (Suc n)
  let ?next = "rungeKuttaStep f x y (Fin r)"
  have x1: "fst ?next = js_add x (Fin r)" by (rule rungeKuttaStep_fst)
  from Suc.prems have le: "js_le x (fst ?next)"
    unfolding x1 by (cases x) (auto simp: js_le_def)
  from Suc.prems have nn: "fst ?next \<noteq> NaN"
    unfolding x1 by (cases x) auto
  from Suc.IH[OF Suc.prems(1) nn, of "snd ?next"]
  have IH: "sorted_wrt js_le (map fst (directionLoop f (Fin r) n (fst ?next) (snd ?next)))"
    "\<forall>p \<in> set (directionLoop f (Fin r) n (fst ?next) (snd ?next)). js_le (fst ?next) (fst p)"
    by simp_all
  show ?case
  proof (cases "isFinite (snd ?next)")
    case False
    then show ?thesis unfolding directionLoop_Suc_stop[OF False] by simp
  next
    case True
    show ?thesis
      unfolding directionLoop_Suc_go[OF True] using IH le by (auto intro: js_le_trans)
  qed
qed

lemma directionLoop_descending:
  "r \<le> 0 \<Longrightarrow> x \<noteq> NaN \<Longrightarrow>
   sorted_wrt (\<lambda>a b. js_le b a) (map fst (directionLoop f (Fin r) n x y))
   \<and> (\<forall>p \<in> set (directionLoop f (Fin r) n x y). js_le (fst p) x)"
proof (induction n arbitrary: x y)
  case 0
  then show ?case by simp
next
  case (Suc n)
  let ?next = "rungeKuttaStep f x y (Fin r)"
  have x1: "fst ?next = js_add x (Fin r)" by (rule rungeKuttaStep_fst)
  from Suc.prems have le: "js_le (fst ?next) x"
    unfolding x1 by (cases x) (auto simp: js_le_def)
  from Suc.prems have nn: "fst ?next \<noteq> NaN"
    unfolding x1 by (cases x) auto
  from Suc.IH[OF Suc.prems(1) nn, of "snd ?next"]
  have IH: "sorted_wrt (\<lambda>a b. js_le b a) (map fst (directionLoop f (Fin r) n (fst ?next) (snd ?next)))"
    "\<forall>p \<in> set (directionLoop f (Fin r) n (fst ?next) (snd ?next)). js_le (fst p) (fst ?next)"
    by simp_all
  show ?case
  proof (cases "isFinite (snd ?next)")
    case False
    then show ?thesis unfolding directionLoop_Suc_stop[OF False] by simp
  next
    case True
    show ?thesis
      unfolding directionLoop_Suc_go[OF True] using IH le by (auto intro: js_le_trans)
  qed
qed

lemma integrateDirection_rk4Run:
  "rk4Run f (js_mul (js_div spanArg (Fin (real n))) d) n x0 y0
     (integrateDirection f x0 y0 spanArg n d)"
  unfolding rk4Run_def integrateDirection_def list_all_iff
  using directionLoop_length directionLoop_nth directionLoop_stop directionLoop_finite
  by (metis atLeastLessThan_iff linorder_not_le nth_mem set_upt)

lemma spanOf_cases:
  obtains (fin) r where "spanOf opts = Fin r" "r \<noteq> 0"
  | (inf) "\<not> isFinite (spanOf opts)" "spanOf opts \<noteq> NaN"
proof (cases "optSpan opts")
  case None
  then have "spanOf opts = Fin 4" by (simp add: spanOf_def DEFAULT_SPAN_def)
  then show ?thesis using fin by simp
next
  case (Some s)
  show ?thesis
  proof (cases "isZero s \<or> s = NaN")
    case True
    with Some have "spanOf opts = Fin 4" by (simp add: spanOf_def DEFAULT_SPAN_def)
    then show ?thesis using fin by simp
  next
    case False
    with Some have eq: "spanOf opts = s" by (simp add: spanOf_def)
    from False show ?thesis using fin inf unfolding eq by (cases s) (auto simp: isZero_def)
  qed
qed

lemma chartPoints_order:
  assumes "x0Of opts \<noteq> NaN"
  shows "if js_lt (Fin 0) (spanOf opts)
         then sorted_wrt js_le (map fst (chartPoints f opts))
         else sorted_wrt js_le (rev (map fst (chartPoints f opts)))"
proof (cases opts rule: spanOf_cases)
  case inf
  have "\<not> isFinite (js_mul (js_div (spanOf opts) (Fin 160)) d)" if "d = Fin 1 \<or> d = Fin (- 1)" for d
    using inf that by (cases "spanOf opts") (auto simp: number_defs)
  then have "integrateDirection f (x0Of opts) (y0Of opts) (spanOf opts) 160 (Fin 1) = []"
    "integrateDirection f (x0Of opts) (y0Of opts) (spanOf opts) 160 (Fin (- 1)) = []"
    by (simp_all add: integrateDirection_def directionLoop_infinite_h)
  then show ?thesis by (simp add: chartPoints_def Let_def)
next
  case (fin r)
  let ?x0 = "x0Of opts" and ?y0 = "y0Of opts"
  let ?fwd = "directionLoop f (Fin (r / 160)) 160 ?x0 ?y0"
  let ?bwd = "directionLoop f (Fin (- (r / 160))) 160 ?x0 ?y0"
  have pts: "map fst (chartPoints f opts) = rev (map fst ?bwd) @ [?x0] @ map fst ?fwd"
    by (simp add: chartPoints_def Let_def integrateDirection_def fin rev_map number_simps)
  show ?thesis
  proof (cases "0 < r")
    case True
    from directionLoop_ascending[of "r / 160" ?x0 f 160 ?y0] True assms
    have f1: "sorted_wrt js_le (map fst ?fwd)" and f2: "\<forall>p \<in> set ?fwd. js_le ?x0 (fst p)"
      by simp_all
    from directionLoop_descending[of "- (r / 160)" ?x0 f 160 ?y0] True assms
    have b1: "sorted_wrt (\<lambda>a b. js_le b a) (map fst ?bwd)"
      and b2: "\<forall>p \<in> set ?bwd. js_le (fst p) ?x0"
      by simp_all
    have "sorted_wrt js_le (rev (map fst ?bwd) @ [?x0] @ map fst ?fwd)"
      using f1 f2 b1 b2
      by (auto simp: sorted_wrt_append sorted_wrt_rev intro: js_le_trans)
    with True show ?thesis by (simp add: pts fin)
  next
    case False
    with fin have neg: "r < 0" by simp
    from directionLoop_descending[of "r / 160" ?x0 f 160 ?y0] neg assms
    have f1: "sorted_wrt (\<lambda>a b. js_le b a) (map fst ?fwd)"
      and f2: "\<forall>p \<in> set ?fwd. js_le (fst p) ?x0"
      by simp_all
    from directionLoop_ascending[of "- (r / 160)" ?x0 f 160 ?y0] neg assms
    have b1: "sorted_wrt js_le (map fst ?bwd)" and b2: "\<forall>p \<in> set ?bwd. js_le ?x0 (fst p)"
      by simp_all
    have "sorted_wrt js_le (rev (map fst ?fwd) @ [?x0] @ map fst ?bwd)"
      using f1 f2 b1 b2
      by (auto simp: sorted_wrt_append sorted_wrt_rev intro: js_le_trans)
    with False show ?thesis by (simp add: pts fin)
  qed
qed

text \<open>
  C9.  Each direction of \<open>renderSolutionChart\<close> is a run of at most 160 Runge-Kutta
  steps that ends before the first step whose updated \<open>y\<close> is not finite, and
  \<open>integrateDirection\<close> returns it oldest first, so the backward run starts with the point
  nearest to the initial point.  The chart reverses the backward run and puts it before the
  initial point and the forward run; when the initial \<open>x\<close> is a number (not NaN) the
  \<open>x\<close> values of this list are ordered, ascending for a positive span and descending for
  a negative one.
\<close>

theorem chartPoints_runs_ordered:
  "rk4Run f (js_mul (js_div (spanOf opts) (Fin 160)) (Fin 1)) 160 (x0Of opts) (y0Of opts)
     (integrateDirection f (x0Of opts) (y0Of opts) (spanOf opts) 160 (Fin 1))
   \<and> rk4Run f (js_mul (js_div (spanOf opts) (Fin 160)) (Fin (- 1))) 160 (x0Of opts) (y0Of opts)
     (integrateDirection f (x0Of opts) (y0Of opts) (spanOf opts) 160 (Fin (- 1)))
   \<and> chartPoints f opts =
       rev (integrateDirection f (x0Of opts) (y0Of opts) (spanOf opts) 160 (Fin (- 1)))
       @ [(x0Of opts, y0Of opts)]
       @ integrateDirection f (x0Of opts) (y0Of opts) (spanOf opts) 160 (Fin 1)
   \<and> (x0Of opts \<noteq> NaN \<longrightarrow>
        (if js_lt (Fin 0) (spanOf opts)
         then sorted_wrt js_le (map fst (chartPoints f opts))
         else sorted_wrt js_le (rev (map fst (chartPoints f opts)))))"
proof -
  have "rk4Run f (js_mul (js_div (spanOf opts) (Fin 160)) d) 160 (x0Of opts) (y0Of opts)
     (integrateDirection f (x0Of opts) (y0Of opts) (spanOf opts) 160 d)" for d
    using integrateDirection_rk4Run[of f "spanOf opts" 160 d "x0Of opts" "y0Of opts"] by simp
  moreover have "chartPoints f opts =
       rev (integrateDirection f (x0Of opts) (y0Of opts) (spanOf opts) 160 (Fin (- 1)))
       @ [(x0Of opts, y0Of opts)]
       @ integrateDirection f (x0Of opts) (y0Of opts) (spanOf opts) 160 (Fin 1)"
    by (simp add: chartPoints_def Let_def)
  ultimately show ?thesis using chartPoints_order[of opts f] by blast
qed

theorem chartPoints_runs_ordered_witness:
  "x0Of \<lparr>optSpan = None, optX0 = None, optY0 = None\<rparr> \<noteq> NaN
   \<and> js_lt (Fin 0) (spanOf \<lparr>optSpan = None, optX0 = None, optY0 = None\<rparr>)
   \<and> sorted_wrt js_le
       (map fst (chartPoints (\<lambda>x y. y) \<lparr>optSpan = None, optX0 = None, optY0 = None\<rparr>))
   \<and> integrateDirection (\<lambda>x y. y) (Fin 0) (Fin 1) (Fin 4) 2 (Fin 1)
       = [(Fin 2, Fin 7), (Fin 4, Fin 49)]
   \<and> integrateDirection (\<lambda>x y. y) (Fin 0) PInf (Fin 4) 2 (Fin 1) = []"
proof -
  let ?opts = "\<lparr>optSpan = None, optX0 = None, optY0 = None\<rparr>"
  have h: "x0Of ?opts \<noteq> NaN" by (simp add: x0Of_def)
  have p: "js_lt (Fin 0) (spanOf ?opts)" by (simp add: spanOf_def DEFAULT_SPAN_def)
  from chartPoints_runs_ordered [of "\<lambda>x y. y" ?opts]
  have "x0Of ?opts \<noteq> NaN \<longrightarrow>
        (if js_lt (Fin 0) (spanOf ?opts)
         then sorted_wrt js_le (map fst (chartPoints (\<lambda>x y. y) ?opts))
         else sorted_wrt js_le (rev (map fst (chartPoints (\<lambda>x y. y) ?opts))))"
    by blast
  with h p have s: "sorted_wrt js_le (map fst (chartPoints (\<lambda>x y. y) ?opts))"
    by simp
  have e1: "integrateDirection (\<lambda>x y. y) (Fin 0) (Fin 1) (Fin 4) 2 (Fin 1)
       = [(Fin 2, Fin 7), (Fin 4, Fin 49)]"
    by (simp add: integrateDirection_def rungeKuttaStep_def safeEval_def Let_def numeral_2_eq_2
        number_simps)
  have e2: "integrateDirection (\<lambda>x y. y) (Fin 0) PInf (Fin 4) 2 (Fin 1) = []"
    by (simp add: integrateDirection_def rungeKuttaStep_def safeEval_def Let_def numeral_2_eq_2
        number_simps)
  from h p s e1 e2 show ?thesis by blast
qed

section \<open>Worked equations\<close>

text \<open>The definitions that the simplifier unfolds to run the model on a concrete input.\<close>

lemmas tokenizer_defs = tokenize_def str_def isNumberChar_def isDigit_def parseFloat_def
  digitsValue_def isIdentStart_def isIdentChar_def operatorOfChar_def OP_INFO_def CONSTANTS_def
  asciiString_def toLowerCase_def FUNCTIONS_def char_of_def bit_Suc_0_iff Let_def

lemmas parser_defs = parseExpression_def trim_def isSpace_def replaceUnit_def bindE_def
  toRPN_def buildAST_def number_simps

lemmas solver_defs = processEquation_def processBody_def parseDifferentialEquation_def
  classifyEquation_def buildDirectSolution_def buildSeparableSolution_def
  buildLinearSolution_def detectSeparable_def detectLinear_def flattenProduct_def
  flattenSum_def buildProduct_def extractLinearCoefficient_def integrate_def okE_def
  makeMul_def makeAdd_def makeSub_def makeDiv_def makePow_def makeNeg_def matchLinear_def
  extractNumericConstant_def isConstantWithRespectTo_def lnAbs_def
  PREC_MAP_def formatNumber_def evalBinary_def

text \<open>
  C5.  For every runtime, \<open>processEquation\<close> on \<^verbatim>\<open>dy/dx = 2*x\<close> returns status \<^verbatim>\<open>ok\<close>
  with classification \<^verbatim>\<open>direct\<close>; the final solution text is \<^verbatim>\<open>y(x) = \<close>, the rendering
  of the integral \<^verbatim>\<open>2 * (0.5 * x ^ 2)\<close> of the right-hand side, and \<^verbatim>\<open> + C\<close>; and that integral
  evaluates to \<open>x\<^sup>2\<close> at every real \<open>x\<close>.
\<close>

theorem processEquation_2x:
  "processEquation rt (str ''dy/dx = 2*x'') =
     Ok \<lparr>classification = ''direct'',
         normalizedEquation = str ''dy/dx = ''
           @ nodeToString rt (Binary ''*'' (Number (Fin 2)) (Variable ''x'')),
         steps = [None,
           Some ([8747] @ str '' dy = '' @ [8747] @ str '' (''
                 @ nodeToString rt (Binary ''*'' (Number (Fin 2)) (Variable ''x''))
                 @ str '') dx''),
           Some (str ''y(x) = ''
                 @ nodeToString rt (Binary ''*'' (Number (Fin 2))
                     (Binary ''*'' (Number (Fin (1 / 2)))
                        (Binary ''^'' (Variable ''x'') (Number (Fin 2)))))
                 @ str '' + C'')],
         finalSolution = str ''y(x) = ''
           @ nodeToString rt (Binary ''*'' (Number (Fin 2))
               (Binary ''*'' (Number (Fin (1 / 2)))
                  (Binary ''^'' (Variable ''x'') (Number (Fin 2)))))
           @ str '' + C'',
         rhsNode = Binary ''*'' (Number (Fin 2)) (Variable ''x'')\<rparr>
   \<and> status (processEquation rt (str ''dy/dx = 2*x'')) = ''ok''
   \<and> integrate (Binary ''*'' (Number (Fin 2)) (Variable ''x'')) ''x'' =
       Inr (Some (Binary ''*'' (Number (Fin 2))
               (Binary ''*'' (Number (Fin (1 / 2)))
                  (Binary ''^'' (Variable ''x'') (Number (Fin 2))))))
   \<and> (\<forall>x. evaluateNode (Binary ''*'' (Number (Fin 2))
               (Binary ''*'' (Number (Fin (1 / 2)))
                  (Binary ''^'' (Variable ''x'') (Number (Fin 2)))))
             [''x'' \<mapsto> Fin x] = Inr (Fin (x ^ 2)))"
proof -
  have p: "processEquation rt (str ''dy/dx = 2*x'') =
     Ok \<lparr>classification = ''direct'',
         normalizedEquation = str ''dy/dx = ''
           @ nodeToString rt (Binary ''*'' (Number (Fin 2)) (Variable ''x'')),
         steps = [None,
           Some ([8747] @ str '' dy = '' @ [8747] @ str '' (''
                 @ nodeToString rt (Binary ''*'' (Number (Fin 2)) (Variable ''x''))
                 @ str '') dx''),
           Some (str ''y(x) = ''
                 @ nodeToString rt (Binary ''*'' (Number (Fin 2))
                     (Binary ''*'' (Number (Fin (1 / 2)))
                        (Binary ''^'' (Variable ''x'') (Number (Fin 2)))))
                 @ str '' + C'')],
         finalSolution = str ''y(x) = ''
           @ nodeToString rt (Binary ''*'' (Number (Fin 2))
               (Binary ''*'' (Number (Fin (1 / 2)))
                  (Binary ''^'' (Variable ''x'') (Number (Fin 2)))))
           @ str '' + C'',
         rhsNode = Binary ''*'' (Number (Fin 2)) (Variable ''x'')\<rparr>"
    by (simp add: tokenizer_defs parser_defs solver_defs)
  have i: "integrate (Binary ''*'' (Number (Fin 2)) (Variable ''x'')) ''x'' =
       Inr (Some (Binary ''*'' (Number (Fin 2))
               (Binary ''*'' (Number (Fin (1 / 2)))
                  (Binary ''^'' (Variable ''x'') (Number (Fin 2))))))"
    by (simp add: parser_defs solver_defs)
  have e: "evaluateNode (Binary ''*'' (Number (Fin 2))
               (Binary ''*'' (Number (Fin (1 / 2)))
                  (Binary ''^'' (Variable ''x'') (Number (Fin 2)))))
             [''x'' \<mapsto> Fin x] = Inr (Fin (x ^ 2))" for x
    by (simp add: applyOperator_def number_simps)
  from p have s: "status (processEquation rt (str ''dy/dx = 2*x'')) = ''ok''"
    by (simp only: status.simps)
  from p s i e show ?thesis by blast
qed

theorem processEquation_2x_witness:
  "status (processEquation \<lparr>numberToString = (\<lambda>v. []), parseFloatToFixed6 = (\<lambda>v. v)\<rparr>
     (str ''dy/dx = 2*x'')) = ''ok''
   \<and> evaluateNode (Binary ''*'' (Number (Fin 2))
         (Binary ''*'' (Number (Fin (1 / 2)))
            (Binary ''^'' (Variable ''x'') (Number (Fin 2)))))
       [''x'' \<mapsto> Fin 3] = Inr (Fin 9)"
  using processEquation_2x
    [of "\<lparr>numberToString = (\<lambda>v. []), parseFloatToFixed6 = (\<lambda>v. v)\<rparr>"]
  by simp

lemma buildLinearSolution_fallback:
  assumes "makeNeg aNode = Inr na" and "simplifyNode na = Inr P" and "simplifyNode bNode = Inr Q"
    and "integrate P ''x'' = Inr (Some iP)"
    and "simplifyNode (Function ''exp'' (cloneNode iP)) = Inr mu"
    and "makeMul mu Q = Inr m" and "simplifyNode m = Inr muQ"
    and "integrate muQ ''x'' = Inr None"
  shows "\<exists>s. buildLinearSolution rt p rhsN aNode bNode = Inr (Ok s)
           \<and> classification s = ''linear''
           \<and> finalSolution s = str ''y(x) = (1/'' @ nodeToString rt mu @ str '') * (''
                @ [8747] @ str '' ('' @ nodeToString rt muQ @ str '') dx + C)''"
  using assms by (simp add: buildLinearSolution_def bindE_def Let_def)

text \<open>
  C6.  For every runtime, \<open>processEquation\<close> on \<^verbatim>\<open>dy/dx = x + y\<close> returns status \<^verbatim>\<open>ok\<close>
  with classification \<^verbatim>\<open>linear\<close>: the coefficient of \<open>y\<close> is 1 and the free term \<open>x\<close>, so
  \<open>P(x) = -1\<close> and \<open>Q(x) = x\<close>; the integrating factor is \<^verbatim>\<open>exp(-1 * x)\<close>, which evaluates
  to \<open>exp (- x)\<close>; the rule set finds no integral of \<^verbatim>\<open>exp(-1 * x) * x\<close>, and the final
  solution is the implicit form with the integral left unevaluated.  In general, whenever
  the integral of \<open>\<mu> Q\<close> is not found, \<open>buildLinearSolution\<close> returns a solution with the
  implicit form, not an error.
\<close>

theorem processEquation_x_plus_y:
  "processEquation rt (str ''dy/dx = x + y'') =
     Ok \<lparr>classification = ''linear'',
         normalizedEquation = str ''dy/dx = ''
           @ nodeToString rt (Binary ''+'' (Variable ''x'') (Variable ''y'')),
         steps = [None,
           Some (str ''P(x) = '' @ nodeToString rt (Number (Fin (- 1))) @ str ''   '' @ [1548]
                 @ str ''   Q(x) = '' @ nodeToString rt (Variable ''x'')),
           Some ([956] @ str ''(x) = exp(''
                 @ nodeToString rt (Binary ''*'' (Number (Fin (- 1))) (Variable ''x''))
                 @ str '') = ''
                 @ nodeToString rt
                     (Function ''exp'' (Binary ''*'' (Number (Fin (- 1))) (Variable ''x'')))),
           Some (str ''d/dx ['' @ [956] @ str ''(x) '' @ [183] @ str '' y] = '' @ [956]
                 @ str ''(x) '' @ [183] @ str '' Q(x) = ''
                 @ nodeToString rt
                     (Binary ''*''
                        (Function ''exp'' (Binary ''*'' (Number (Fin (- 1))) (Variable ''x'')))
                        (Variable ''x''))),
           Some ([956] @ str ''(x) '' @ [183] @ str '' y = '' @ [8747] @ str '' (''
                 @ nodeToString rt
                     (Binary ''*''
                        (Function ''exp'' (Binary ''*'' (Number (Fin (- 1))) (Variable ''x'')))
                        (Variable ''x''))
                 @ str '') dx + C''),
           Some (str ''y(x) = (1/''
                 @ nodeToString rt
                     (Function ''exp'' (Binary ''*'' (Number (Fin (- 1))) (Variable ''x'')))
                 @ str '') * ('' @ [8747] @ str '' (''
                 @ nodeToString rt
                     (Binary ''*''
                        (Function ''exp'' (Binary ''*'' (Number (Fin (- 1))) (Variable ''x'')))
                        (Variable ''x''))
                 @ str '') dx + C)'')],
         finalSolution = str ''y(x) = (1/''
           @ nodeToString rt
               (Function ''exp'' (Binary ''*'' (Number (Fin (- 1))) (Variable ''x'')))
           @ str '') * ('' @ [8747] @ str '' (''
           @ nodeToString rt
               (Binary ''*''
                  (Function ''exp'' (Binary ''*'' (Number (Fin (- 1))) (Variable ''x'')))
                  (Variable ''x''))
           @ str '') dx + C)'',
         rhsNode = Binary ''+'' (Variable ''x'') (Variable ''y'')\<rparr>
   \<and> status (processEquation rt (str ''dy/dx = x + y'')) = ''ok''
   \<and> detectLinear (Binary ''+'' (Variable ''x'') (Variable ''y''))
       = Inr (Some (Number (Fin 1), Variable ''x''))
   \<and> bindE (makeNeg (Number (Fin 1))) simplifyNode = Inr (Number (Fin (- 1)))
   \<and> simplifyNode (Variable ''x'') = Inr (Variable ''x'')
   \<and> integrate (Number (Fin (- 1))) ''x''
       = Inr (Some (Binary ''*'' (Number (Fin (- 1))) (Variable ''x'')))
   \<and> (\<forall>x. evaluateNode
              (Function ''exp'' (Binary ''*'' (Number (Fin (- 1))) (Variable ''x'')))
              [''x'' \<mapsto> Fin x] = Inr (Fin (exp (- x))))
   \<and> integrate
         (Binary ''*'' (Function ''exp'' (Binary ''*'' (Number (Fin (- 1))) (Variable ''x'')))
            (Variable ''x'')) ''x'' = Inr None
   \<and> (\<forall>p rhsN aNode bNode na P Q iP mu m muQ.
         makeNeg aNode = Inr na \<and> simplifyNode na = Inr P \<and> simplifyNode bNode = Inr Q
         \<and> integrate P ''x'' = Inr (Some iP)
         \<and> simplifyNode (Function ''exp'' (cloneNode iP)) = Inr mu
         \<and> makeMul mu Q = Inr m \<and> simplifyNode m = Inr muQ
         \<and> integrate muQ ''x'' = Inr None
         \<longrightarrow> (\<exists>s. buildLinearSolution rt p rhsN aNode bNode = Inr (Ok s)
                \<and> classification s = ''linear''
                \<and> finalSolution s = str ''y(x) = (1/'' @ nodeToString rt mu @ str '') * (''
                     @ [8747] @ str '' ('' @ nodeToString rt muQ @ str '') dx + C)''))"
  (is "?A \<and> ?B \<and> ?C \<and> ?D \<and> ?E \<and> ?F \<and> ?G \<and> ?H \<and> ?I")
proof -
  have a: ?A by (simp add: tokenizer_defs parser_defs solver_defs)
  from a have b: ?B by (simp only: status.simps)
  have c: ?C by (simp add: parser_defs solver_defs)
  have d: ?D by (simp add: parser_defs solver_defs)
  have e: ?E by simp
  have f: ?F by (simp add: parser_defs solver_defs)
  have g: ?G by (simp add: applyFunction_def applyOperator_def number_simps)
  have h: ?H by (simp add: parser_defs solver_defs)
  have i: ?I using buildLinearSolution_fallback by blast
  from a b c d e f g h i show ?thesis by blast
qed

theorem processEquation_x_plus_y_witness:
  "makeNeg (Number (Fin 1)) = Inr (Number (Fin (- 1)))
   \<and> simplifyNode (Number (Fin (- 1))) = Inr (Number (Fin (- 1)))
   \<and> simplifyNode (Variable ''x'') = Inr (Variable ''x'')
   \<and> integrate (Number (Fin (- 1))) ''x''
       = Inr (Some (Binary ''*'' (Number (Fin (- 1))) (Variable ''x'')))
   \<and> simplifyNode (Function ''exp''
         (cloneNode (Binary ''*'' (Number (Fin (- 1))) (Variable ''x''))))
       = Inr (Function ''exp'' (Binary ''*'' (Number (Fin (- 1))) (Variable ''x'')))
   \<and> makeMul (Function ''exp'' (Binary ''*'' (Number (Fin (- 1))) (Variable ''x'')))
         (Variable ''x'')
       = Inr (Binary ''*''
               (Function ''exp'' (Binary ''*'' (Number (Fin (- 1))) (Variable ''x'')))
               (Variable ''x''))
   \<and> simplifyNode (Binary ''*''
         (Function ''exp'' (Binary ''*'' (Number (Fin (- 1))) (Variable ''x'')))
         (Variable ''x''))
       = Inr (Binary ''*''
               (Function ''exp'' (Binary ''*'' (Number (Fin (- 1))) (Variable ''x'')))
               (Variable ''x''))
   \<and> integrate (Binary ''*''
         (Function ''exp'' (Binary ''*'' (Number (Fin (- 1))) (Variable ''x'')))
         (Variable ''x'')) ''x'' = Inr None
   \<and> (\<exists>s. buildLinearSolution \<lparr>numberToString = (\<lambda>v. []), parseFloatToFixed6 = (\<lambda>v. v)\<rparr>
              \<lparr>rhs = Binary ''+'' (Variable ''x'') (Variable ''y''), parsedEquation = []\<rparr>
              (Binary ''+'' (Variable ''x'') (Variable ''y'')) (Number (Fin 1)) (Variable ''x'')
            = Inr (Ok s)
          \<and> classification s = ''linear'')"
  (is "?h1 \<and> ?h2 \<and> ?h3 \<and> ?h4 \<and> ?h5 \<and> ?h6 \<and> ?h7 \<and> ?h8 \<and> ?concl")
proof -
  let ?rt = "\<lparr>numberToString = (\<lambda>v. []), parseFloatToFixed6 = (\<lambda>v. v)\<rparr>"
  have h1: ?h1 and h2: ?h2 and h3: ?h3 and h4: ?h4 and h5: ?h5 and h6: ?h6 and h7: ?h7
    and h8: ?h8
    by (simp_all add: parser_defs solver_defs)
  note g = processEquation_x_plus_y [of ?rt, THEN conjunct2, THEN conjunct2, THEN conjunct2,
      THEN conjunct2, THEN conjunct2, THEN conjunct2, THEN conjunct2, THEN conjunct2,
      rule_format, OF conjI [OF h1 conjI [OF h2 conjI [OF h3 conjI [OF h4 conjI [OF h5
        conjI [OF h6 conjI [OF h7 h8]]]]]]],
      of "\<lparr>rhs = Binary ''+'' (Variable ''x'') (Variable ''y''), parsedEquation = []\<rparr>"
         "Binary ''+'' (Variable ''x'') (Variable ''y'')"]
  from g have ?concl by blast
  with h1 h2 h3 h4 h5 h6 h7 h8 show ?thesis by blast
qed

section \<open>The simplifier and evaluation\<close>

lemma finite_cases:
  assumes "isFinite v"
  obtains (fin) r where "v = Fin r" | (nzero) "v = NZero"
  using assms by (cases v) auto

lemma sameReal_iff:
  "sameReal (Inr v) (Inr w) \<longleftrightarrow> isFinite v \<and> isFinite w \<and> realOf v = realOf w"
  by (simp add: sameReal_def)

text \<open>
  An operator or a function that returns a finite number on finite arguments returns a
  finite number with the same real value when the sign of a zero argument is changed.
\<close>

lemma same_real_cases:
  assumes "isFinite v" and "isFinite w" and "realOf w = realOf v"
  shows "w = v \<or> (isZero v \<and> isZero w)"
  using assms by (cases v; cases w) (auto simp: isZero_def)

lemma Math_pow_zero: "isZero z \<Longrightarrow> Math_pow a z = Fin 1"
  by (auto simp: isZero_def)

lemma Math_pow_zero_base:
  assumes "isZero z" and "isZero z'" and "isFinite (Math_pow z e)"
  shows "isFinite (Math_pow z' e) \<and> realOf (Math_pow z' e) = realOf (Math_pow z e)"
  using assms by (cases e) (auto simp: isZero_def split: if_splits)

lemma Math_pow_real:
  assumes "isFinite (Math_pow v1 v2)" and "isFinite v1" and "isFinite v2"
    and "isFinite w1" and "isFinite w2"
    and "realOf w1 = realOf v1" and "realOf w2 = realOf v2"
  shows "isFinite (Math_pow w1 w2) \<and> realOf (Math_pow w1 w2) = realOf (Math_pow v1 v2)"
proof -
  from same_real_cases[OF assms(3,5,7)] show ?thesis
  proof
    assume w2: "w2 = v2"
    from same_real_cases[OF assms(2,4,6)] show ?thesis
    proof
      assume "w1 = v1"
      with w2 assms(1) show ?thesis by simp
    next
      assume "isZero v1 \<and> isZero w1"
      with Math_pow_zero_base[of v1 w1 v2] assms(1) w2 show ?thesis by simp
    qed
  next
    assume "isZero v2 \<and> isZero w2"
    then show ?thesis by (simp add: Math_pow_zero del: Math_pow.simps)
  qed
qed

lemma applyOperator_real:
  assumes "applyOperator op v1 v2 = Inr v" and "isFinite v"
    and "isFinite v1" and "isFinite v2" and "isFinite w1" and "isFinite w2"
    and "realOf w1 = realOf v1" and "realOf w2 = realOf v2"
  shows "\<exists>w. applyOperator op w1 w2 = Inr w \<and> isFinite w \<and> realOf w = realOf v"
proof -
  consider "op = ''+''" | "op = ''-''" | "op = ''*''" | "op = ''/''" | "op = ''^''"
    using assms(1) by (auto simp: applyOperator_def split: if_splits)
  then show ?thesis
  proof cases
    case 1
    have "isFinite (js_add w1 w2) \<and> realOf (js_add w1 w2) = realOf (js_add v1 v2)"
      using assms(3-8) by (cases v1; cases v2; cases w1; cases w2) auto
    with 1 assms(1) show ?thesis by (auto simp: applyOperator_def)
  next
    case 2
    have "isFinite (js_sub w1 w2) \<and> realOf (js_sub w1 w2) = realOf (js_sub v1 v2)"
      using assms(3-8) by (cases v1; cases v2; cases w1; cases w2) (auto simp: js_sub_def)
    with 2 assms(1) show ?thesis by (auto simp: applyOperator_def)
  next
    case 3
    have "isFinite (js_mul w1 w2) \<and> realOf (js_mul w1 w2) = realOf (js_mul v1 v2)"
      using assms(3-8) by (cases v1; cases v2; cases w1; cases w2) (auto simp: number_defs)
    with 3 assms(1) show ?thesis by (auto simp: applyOperator_def)
  next
    case 4
    from 4 assms(1) have v: "v = js_div v1 v2" by (simp add: applyOperator_def)
    have "isFinite (js_div w1 w2) \<and> realOf (js_div w1 w2) = realOf (js_div v1 v2)"
      using assms(2-8) unfolding v
      by (cases v1; cases v2; cases w1; cases w2) (auto simp: number_defs split: if_splits)
    with 4 v show ?thesis by (auto simp: applyOperator_def)
  next
    case 5
    with assms(1) have v: "v = Math_pow v1 v2" by (simp add: applyOperator_def)
    from Math_pow_real[OF assms(2)[unfolded v] assms(3-8)] 5 v show ?thesis
      by (simp add: applyOperator_def)
  qed
qed

lemma zero_function_values:
  assumes "isZero z"
  shows "isZero (Math_sin z)" "Math_cos z = Fin 1" "isZero (Math_tan z)" "Math_exp z = Fin 1"
    "Math_log z = NInf" "isZero (Math_sqrt z)" "Math_abs z = Fin 0"
    "\<not> isFinite (js_div (Fin 1) z)"
  using assms by (auto simp: isZero_def js_div_def signedInf_def)

lemma isZero_real: "isZero z \<Longrightarrow> isFinite z \<and> realOf z = 0"
  by (auto simp: isZero_def)

lemma applyFunction_zero:
  assumes "applyFunction name v = Inr u" and "isFinite u" and "isZero v" and "isZero w"
  shows "\<exists>u'. applyFunction name w = Inr u' \<and> isFinite u' \<and> realOf u' = realOf u"
proof -
  note zv = zero_function_values[OF assms(3)] and zw = zero_function_values[OF assms(4)]
  consider "name = ''sin''" | "name = ''cos''" | "name = ''tan''" | "name = ''cot''"
    | "name = ''sec''" | "name = ''csc''" | "name = ''exp''" | "name = ''ln'' \<or> name = ''log''"
    | "name = ''sqrt''" | "name = ''abs''"
    using assms(1) unfolding applyFunction_def by (auto split: if_splits)
  then show ?thesis
  proof cases
    case 1
    with assms(1) zv(1) zw(1) show ?thesis by (auto simp: applyFunction_def isZero_real)
  next
    case 2
    with assms(1) zv(2) zw(2) show ?thesis by (auto simp: applyFunction_def)
  next
    case 3
    with assms(1) zv(3) zw(3) show ?thesis by (auto simp: applyFunction_def isZero_real)
  next
    case 4
    with assms(1,2) zero_function_values(8)[OF zv(3)] show ?thesis
      by (auto simp: applyFunction_def)
  next
    case 5
    with assms(1) zv(2) zw(2) show ?thesis by (auto simp: applyFunction_def js_div_Fin)
  next
    case 6
    with assms(1,2) zero_function_values(8)[OF zv(1)] show ?thesis
      by (auto simp: applyFunction_def)
  next
    case 7
    with assms(1) zv(4) zw(4) show ?thesis by (auto simp: applyFunction_def)
  next
    case 8
    then have "applyFunction name v = Inr (Math_log v)"
      unfolding applyFunction_def by auto
    with assms(1,2) zv(5) show ?thesis by simp
  next
    case 9
    with assms(1) zv(6) zw(6) show ?thesis by (auto simp: applyFunction_def isZero_real)
  next
    case 10
    with assms(1) zv(7) zw(7) show ?thesis by (auto simp: applyFunction_def)
  qed
qed

lemma applyFunction_real:
  assumes "applyFunction name v = Inr u" and "isFinite u"
    and "isFinite v" and "isFinite w" and "realOf w = realOf v"
  shows "\<exists>u'. applyFunction name w = Inr u' \<and> isFinite u' \<and> realOf u' = realOf u"
proof -
  from same_real_cases[OF assms(3,4,5)] show ?thesis
  proof
    assume "w = v"
    with assms(1,2) show ?thesis by blast
  next
    assume "isZero v \<and> isZero w"
    with applyFunction_zero[OF assms(1,2)] show ?thesis by blast
  qed
qed

lemma evalBinary_applyOperator:
  "evalBinary op a b = Inr z \<Longrightarrow> applyOperator op a b = Inr z"
  by (auto simp: evalBinary_def applyOperator_def split: if_splits)

lemma nearExact_zero: "nearExact n \<Longrightarrow> isZeroNode n \<Longrightarrow> n = Number (Fin 0) \<or> n = Number NZero"
  by (auto simp: nearExact_def)

lemma nearExact_one: "nearExact n \<Longrightarrow> isOneNode n \<Longrightarrow> n = Number (Fin 1)"
  by (auto simp: nearExact_def)

text \<open>The identities of the simplifier, on real values.\<close>

lemma js_add_zero_real:
  "isFinite a \<Longrightarrow> isZero z \<Longrightarrow> realOf (js_add a z) = realOf a \<and> realOf (js_add z a) = realOf a"
  by (cases a rule: finite_cases) (auto simp: isZero_def)

lemma js_sub_zero_real: "isFinite a \<Longrightarrow> isZero z \<Longrightarrow> realOf (js_sub a z) = realOf a"
  by (cases a rule: finite_cases) (auto simp: isZero_def js_sub_def)

lemma js_mul_zero_real:
  "isFinite a \<Longrightarrow> isZero z \<Longrightarrow> realOf (js_mul a z) = 0 \<and> realOf (js_mul z a) = 0"
  by (cases a rule: finite_cases) (auto simp: number_defs)

lemma js_div_zero_real: "isZero z \<Longrightarrow> realOf (js_div z a) = 0"
  by (cases a) (auto simp: number_defs)

lemma js_mul_one: "isFinite a \<Longrightarrow> js_mul a (Fin 1) = a \<and> js_mul (Fin 1) a = a"
  by (cases a rule: finite_cases) (auto simp: number_defs)

lemma js_div_one: "isFinite a \<Longrightarrow> js_div a (Fin 1) = a"
  by (cases a rule: finite_cases) (auto simp: number_defs)

lemma Math_pow_one: "isFinite a \<Longrightarrow> Math_pow a (Fin 1) = a"
  by (cases a rule: finite_cases) (auto simp: isOddInteger_def)

lemma evaluatesFinite_iff:
  "evaluatesFinite n \<sigma> \<longleftrightarrow> (\<exists>v. evaluateNode n \<sigma> = Inr v \<and> isFinite v)"
  by (cases "evaluateNode n \<sigma>") (simp_all add: evaluatesFinite_def)


lemma simplifyBinary_eval:
  assumes sb: "simplifyBinary op l r = Inr m"
    and nl: "nearExact l" and nr: "nearExact r"
    and fl: "finiteEval l \<sigma>" and fr: "finiteEval r \<sigma>"
    and e1: "evaluateNode l \<sigma> = Inr w1" and e2: "evaluateNode r \<sigma> = Inr w2"
    and f1: "isFinite w1" and f2: "isFinite w2"
    and ap: "applyOperator op w1 w2 = Inr w0" and f0: "isFinite w0"
  shows "finiteEval m \<sigma> \<and> (\<exists>w. evaluateNode m \<sigma> = Inr w \<and> isFinite w \<and> realOf w = realOf w0)"
proof (cases "isNumberNode l \<and> isNumberNode r")
  case True
  then obtain a b where lr: "l = Number a" "r = Number b"
    by (cases l; cases r) auto
  with sb obtain z where z: "evalBinary op a b = Inr z" "m = Number z"
    by (auto split: sum.splits)
  from evalBinary_applyOperator[OF z(1)] ap e1 e2 lr z(2) f0 show ?thesis by simp
next
  case False
  note eq = simplifyBinary_nonnum[OF False, of op]
  have zl: "isZeroNode l \<Longrightarrow> isZero w1"
    using nearExact_zero[OF nl] e1 by (auto simp: isZero_def)
  have zr: "isZeroNode r \<Longrightarrow> isZero w2"
    using nearExact_zero[OF nr] e2 by (auto simp: isZero_def)
  have ol: "isOneNode l \<Longrightarrow> w1 = Fin 1"
    using nearExact_one[OF nl] e1 by auto
  have or: "isOneNode r \<Longrightarrow> w2 = Fin 1"
    using nearExact_one[OF nr] e2 by auto
  consider (left) "m = l" "op = ''*'' \<and> w2 = Fin 1 \<or> op = ''/'' \<and> w2 = Fin 1
        \<or> op = ''^'' \<and> w2 = Fin 1 \<or> op = ''+'' \<and> isZero w2 \<or> op = ''-'' \<and> isZero w2"
    | (right) "m = r" "op = ''+'' \<and> isZero w1 \<or> op = ''*'' \<and> w1 = Fin 1"
    | (zero) "m = Number (Fin 0)"
        "op = ''*'' \<and> (isZero w1 \<or> isZero w2) \<or> op = ''/'' \<and> isZero w1"
    | (one) "m = Number (Fin 1)" "op = ''^''" "isZero w2"
    | (same) "m = Binary op l r"
    using sb zl zr ol or unfolding eq by (auto split: if_splits)
  then show ?thesis
  proof cases
    case left
    from left(2) ap f1 have "realOf w1 = realOf w0"
      by (auto simp: applyOperator_def js_mul_one js_div_one Math_pow_one
          js_add_zero_real js_sub_zero_real simp del: Math_pow.simps)
    with left(1) e1 f1 fl show ?thesis by simp
  next
    case right
    from right(2) ap f2 have "realOf w2 = realOf w0"
      by (auto simp: applyOperator_def js_mul_one js_add_zero_real)
    with right(1) e2 f2 fr show ?thesis by simp
  next
    case zero
    from zero(2) ap f1 f2 have "realOf w0 = 0"
      by (auto simp: applyOperator_def js_mul_zero_real js_div_zero_real)
    with zero(1) show ?thesis by simp
  next
    case one
    with ap show ?thesis by (auto simp: applyOperator_def Math_pow_zero simp del: Math_pow.simps)
  next
    case same
    with e1 e2 ap f0 fl fr show ?thesis by (simp add: evaluatesFinite_def)
  qed
qed

lemma simplifyNode_eval:
  "simplifyNode n = Inr m \<Longrightarrow> exactTests n \<Longrightarrow> finiteEval n \<sigma> \<Longrightarrow>
   finiteEval m \<sigma> \<and> sameReal (evaluateNode m \<sigma>) (evaluateNode n \<sigma>)"
proof (induction n arbitrary: m)
  case (Number x)
  then show ?case by (auto simp: sameReal_iff)
next
  case (Variable name)
  then show ?case by (auto simp: sameReal_def evaluatesFinite_def split: option.splits)
next
  case (Unary op argument)
  from Unary.prems(3) have fa: "finiteEval argument \<sigma>"
    and fu: "evaluatesFinite (Unary op argument) \<sigma>" by simp_all
  from fu obtain a where a: "evaluateNode argument \<sigma> = Inr a" and op: "op = ''u-''"
    by (auto simp: evaluatesFinite_iff split: sum.splits if_splits)
  from Unary.prems(1) obtain arg where arg: "simplifyNode argument = Inr arg"
    by (auto split: sum.splits)
  from Unary.IH[OF arg _ fa] Unary.prems(2) a
  obtain w where w: "evaluateNode arg \<sigma> = Inr w" "isFinite w" "isFinite a" "realOf w = realOf a"
    and f: "finiteEval arg \<sigma>"
    by (cases "evaluateNode arg \<sigma>") (auto simp: sameReal_def)
  have neg: "isFinite (js_neg w) \<and> realOf (js_neg w) = realOf (js_neg a)"
    using w(2,3,4) by (cases w; cases a) auto
  have fneg: "isFinite (js_neg a)" using w(3) by (cases a) auto
  from Unary.prems(1) arg op w a f neg fneg show ?case
    by (cases arg) (auto simp: sameReal_iff evaluatesFinite_def split: sum.splits)
next
  case (Function name argument)
  from Function.prems(3) have fa: "finiteEval argument \<sigma>"
    and fu: "evaluatesFinite (Function name argument) \<sigma>" by simp_all
  from fu obtain a u where a: "evaluateNode argument \<sigma> = Inr a"
    and u: "applyFunction name a = Inr u" "isFinite u"
    by (auto simp: evaluatesFinite_iff split: sum.splits)
  from Function.prems(1) obtain arg where arg: "simplifyNode argument = Inr arg"
    and m: "m = Function name arg"
    by (auto split: sum.splits)
  from Function.IH[OF arg _ fa] Function.prems(2) a
  obtain w where w: "evaluateNode arg \<sigma> = Inr w" "isFinite w" "isFinite a" "realOf w = realOf a"
    and f: "finiteEval arg \<sigma>"
    by (cases "evaluateNode arg \<sigma>") (auto simp: sameReal_def)
  from applyFunction_real[OF u w(3,2,4)]
  obtain u' where "applyFunction name w = Inr u'" "isFinite u'" "realOf u' = realOf u"
    by blast
  with m w a u f show ?case by (simp add: sameReal_iff evaluatesFinite_def)
next
  case (Binary op l r)
  from Binary.prems(3) have fl: "finiteEval l \<sigma>" and fr: "finiteEval r \<sigma>"
    and fb: "evaluatesFinite (Binary op l r) \<sigma>" by simp_all
  from fb obtain v1 v2 v where v1: "evaluateNode l \<sigma> = Inr v1"
    and v2: "evaluateNode r \<sigma> = Inr v2" and ap: "applyOperator op v1 v2 = Inr v"
    and fv: "isFinite v"
    by (auto simp: evaluatesFinite_iff split: sum.splits)
  from Binary.prems(1) obtain left right where
    l: "simplifyNode l = Inr left" and r: "simplifyNode r = Inr right"
    and b: "simplifyBinary op left right = Inr m"
    by (auto split: sum.splits)
  from Binary.prems(2) l r have ex: "exactTests l" "exactTests r"
    and ne: "nearExact left" "nearExact right"
    by (simp_all add: nearExactResult_def)
  from Binary.IH(1)[OF l ex(1) fl] v1
  obtain w1 where w1: "evaluateNode left \<sigma> = Inr w1" "isFinite w1" "isFinite v1"
      "realOf w1 = realOf v1" and f1: "finiteEval left \<sigma>"
    by (cases "evaluateNode left \<sigma>") (auto simp: sameReal_def)
  from Binary.IH(2)[OF r ex(2) fr] v2
  obtain w2 where w2: "evaluateNode right \<sigma> = Inr w2" "isFinite w2" "isFinite v2"
      "realOf w2 = realOf v2" and f2: "finiteEval right \<sigma>"
    by (cases "evaluateNode right \<sigma>") (auto simp: sameReal_def)
  from applyOperator_real[OF ap fv w1(3) w2(3) w1(2) w2(2) w1(4) w2(4)]
  obtain w0 where w0: "applyOperator op w1 w2 = Inr w0" "isFinite w0" "realOf w0 = realOf v"
    by blast
  from simplifyBinary_eval[OF b ne f1 f2 w1(1) w2(1) w1(2) w2(2) w0(1,2)]
  obtain w where "finiteEval m \<sigma>" "evaluateNode m \<sigma> = Inr w" "isFinite w" "realOf w = realOf w0"
    by blast
  with w0(3) v1 v2 ap fv show ?case by (simp add: sameReal_iff)
qed

lemma simplifyBinary_total:
  "op \<in> set [''+'', ''-'', ''*'', ''/'', ''^''] \<Longrightarrow> \<exists>m. simplifyBinary op l r = Inr m"
proof (cases "isNumberNode l \<and> isNumberNode r")
  case True
  assume "op \<in> set [''+'', ''-'', ''*'', ''/'', ''^'']"
  moreover from True obtain a b where "l = Number a" "r = Number b"
    by (cases l; cases r) auto
  ultimately show ?thesis by (auto simp: evalBinary_def)
next
  case False
  show ?thesis unfolding simplifyBinary_nonnum[OF False] by simp
qed

lemma simplifyNode_total: "knownOperators n \<Longrightarrow> \<exists>m. simplifyNode n = Inr m"
proof (induction n)
  case (Unary op argument)
  then obtain arg where "simplifyNode argument = Inr arg" by auto
  then show ?case by (cases arg) auto
next
  case (Binary op l r)
  then obtain left right where "simplifyNode l = Inr left" "simplifyNode r = Inr right"
    by auto
  moreover from Binary.prems have "op \<in> set [''+'', ''-'', ''*'', ''/'', ''^'']" by simp
  ultimately show ?case using simplifyBinary_total[of op left right] by auto
qed auto

lemma isZeroNode_tolerance: "isZeroNode (Number (Fin r)) \<longleftrightarrow> \<bar>r\<bar> < 1 / 10 ^ 9"
  by (simp add: tol9_def)

lemma isOneNode_tolerance: "isOneNode (Number (Fin r)) \<longleftrightarrow> \<bar>r - 1\<bar> < 1 / 10 ^ 9"
  by (simp add: tol9_def js_sub_def)

text \<open>
  C1, as stated, fails in two ways.  The tolerance makes the simplifier drop a summand
  that is not zero: \<^verbatim>\<open>2^-40 + x\<close> is simplified to \<^verbatim>\<open>x\<close>, and at \<open>x = 0\<close> the two evaluate to
  \<open>2\<^sup>-\<^sup>4\<^sup>0\<close> and to \<open>0\<close>.  And the rule \<^verbatim>\<open>0 * x -> 0\<close> forgets the sign of the zero: the parser
  reads \<^verbatim>\<open>exp(-exp(1/(0*x)))\<close> as \<^verbatim>\<open>exp(-exp(Infinity))\<close>; at \<open>x = -1\<close> the expression
  itself has the value 1, because \<^verbatim>\<open>0 * -1\<close> is \<open>-0\<close> and \<^verbatim>\<open>1 / -0\<close> is \<open>-\<infinity>\<close>, and the
  simplified node has the value 0.
\<close>

theorem simplifyNode_value_counterexample:
  "simplifyNode (Binary ''+'' (Number (Fin (1 / 2 ^ 40))) (Variable ''x'')) = Inr (Variable ''x'')
   \<and> evaluateNode (Binary ''+'' (Number (Fin (1 / 2 ^ 40))) (Variable ''x''))
         [''x'' \<mapsto> Fin 0, ''y'' \<mapsto> Fin 0] = Inr (Fin (1 / 2 ^ 40))
   \<and> evaluateNode (Variable ''x'') [''x'' \<mapsto> Fin 0, ''y'' \<mapsto> Fin 0] = Inr (Fin 0)
   \<and> Fin (1 / 2 ^ 40) \<noteq> Fin 0
   \<and> simplifyNode (Function ''exp'' (Unary ''u-'' (Function ''exp''
         (Binary ''/'' (Number (Fin 1)) (Binary ''*'' (Number (Fin 0)) (Variable ''x''))))))
       = Inr (Function ''exp'' (Unary ''u-'' (Function ''exp'' (Number PInf))))
   \<and> parseExpression (str ''exp(-exp(1/(0*x)))'')
       = Inr (Function ''exp'' (Unary ''u-'' (Function ''exp'' (Number PInf))))
   \<and> evaluateNode (Function ''exp'' (Unary ''u-'' (Function ''exp''
         (Binary ''/'' (Number (Fin 1)) (Binary ''*'' (Number (Fin 0)) (Variable ''x''))))))
         [''x'' \<mapsto> Fin (- 1), ''y'' \<mapsto> Fin 0] = Inr (Fin 1)
   \<and> evaluateNode (Function ''exp'' (Unary ''u-'' (Function ''exp'' (Number PInf))))
         [''x'' \<mapsto> Fin (- 1), ''y'' \<mapsto> Fin 0] = Inr (Fin 0)
   \<and> Fin 1 \<noteq> Fin 0"
  by (simp add: tokenizer_defs parser_defs evalBinary_def applyOperator_def applyFunction_def
      js_mul_def js_div_def)

text \<open>
  C1, amended.  \<open>simplifyNode\<close> returns a node for every node whose binary operators are
  among the five of \<^verbatim>\<open>evalBinary\<close>.  The identity tests use the absolute tolerance
  \<^verbatim>\<open>1e-9\<close>.  When no simplified operand of a binary node is a number within the tolerance
  of 0 or of 1 other than a zero and 1, simplification preserves the real value at every
  scope at which every subexpression of \<open>n\<close> evaluates to a finite number: there every
  subexpression of the simplified node evaluates to a finite number too, and the
  simplified node has the real value of \<open>n\<close>.
\<close>

theorem simplifyNode_finite_sound:
  "(knownOperators n \<longrightarrow> (\<exists>m. simplifyNode n = Inr m))
   \<and> (\<forall>r. isZeroNode (Number (Fin r)) \<longleftrightarrow> \<bar>r\<bar> < 1 / 10 ^ 9)
   \<and> (\<forall>r. isOneNode (Number (Fin r)) \<longleftrightarrow> \<bar>r - 1\<bar> < 1 / 10 ^ 9)
   \<and> (\<forall>m \<sigma>. simplifyNode n = Inr m \<and> exactTests n \<and> finiteEval n \<sigma>
         \<longrightarrow> finiteEval m \<sigma> \<and> sameReal (evaluateNode m \<sigma>) (evaluateNode n \<sigma>))"
  using simplifyNode_total[of n] simplifyNode_eval[of n] isZeroNode_tolerance
    isOneNode_tolerance by blast

theorem simplifyNode_finite_sound_witness:
  "knownOperators (Binary ''+'' (Number (Fin 0)) (Binary ''*'' (Variable ''x'') (Number (Fin 1))))
   \<and> exactTests (Binary ''+'' (Number (Fin 0)) (Binary ''*'' (Variable ''x'') (Number (Fin 1))))
   \<and> finiteEval (Binary ''+'' (Number (Fin 0)) (Binary ''*'' (Variable ''x'') (Number (Fin 1))))
       [''x'' \<mapsto> Fin 3, ''y'' \<mapsto> Fin 5]
   \<and> simplifyNode (Binary ''+'' (Number (Fin 0)) (Binary ''*'' (Variable ''x'') (Number (Fin 1))))
       = Inr (Variable ''x'')
   \<and> evaluateNode (Binary ''+'' (Number (Fin 0)) (Binary ''*'' (Variable ''x'') (Number (Fin 1))))
       [''x'' \<mapsto> Fin 3, ''y'' \<mapsto> Fin 5] = Inr (Fin 3)
   \<and> sameReal (evaluateNode (Variable ''x'') [''x'' \<mapsto> Fin 3, ''y'' \<mapsto> Fin 5]) (Inr (Fin 3))"
  using simplifyNode_finite_sound
    [of "Binary ''+'' (Number (Fin 0)) (Binary ''*'' (Variable ''x'') (Number (Fin 1)))"]
  by (simp add: number_simps applyOperator_def nearExactResult_def nearExact_def
      evaluatesFinite_def sameReal_def)

section \<open>Exceptions in the solver\<close>





lemma returnsWithI: "r = Inr x \<Longrightarrow> P x \<Longrightarrow> returnsWith P r"
  by (simp add: returnsWith_def)

lemma returnsWith_Inr [simp]: "returnsWith P (Inr x) = P x"
  by (simp add: returnsWith_def)

lemma returnsWith_Inl [simp]: "\<not> returnsWith P (Inl e)"
  by (simp add: returnsWith_def)



lemma returnsWith_mono:
  "returnsWith P m \<Longrightarrow> (\<And>x. P x \<Longrightarrow> Q x) \<Longrightarrow> returnsWith Q m"
  by (cases m) auto








lemma knownOperators_lnAbs [simp]: "knownOperators (lnAbs n) = knownOperators n"
  by (simp add: lnAbs_def)


































section \<open>The affine match\<close>

lemma affineIn_constant: "\<not> dependsOn n v \<Longrightarrow> affineIn n v"
  by (cases n) auto













































section \<open>Integration of a quotient\<close>

























section \<open>The statuses of a result\<close>




end
